theory Spec2Isabelle
  imports Complex_Main
begin

section \<open>Tables read from CSV\<close>

text \<open>
  The values pandas puts into the cells of a frame read by \<^verbatim>\<open>pd.read_csv\<close>: a
  floating-point number, which may be NaN (the reading of an empty field), or a string.
  The arithmetic of floats plays no role in the code modelled here; only the distinction
  between NaN and an ordinary number does, so a number carries a real.
\<close>

datatype pyfloat = FNan | FNum real

datatype cell = Float pyfloat | Str string

abbreviation NaN :: cell where
  "NaN \<equiv> Float FNan"

abbreviation Num :: "real \<Rightarrow> cell" where
  "Num x \<equiv> Float (FNum x)"

text \<open>\<^verbatim>\<open>pd.notna(value)\<close> on a cell.\<close>

fun notna :: "cell \<Rightarrow> bool" where
  "notna (Float FNan) = False"
| "notna (Float (FNum x)) = True"
| "notna (Str s) = True"

text \<open>
  A DataFrame: the header (\<^verbatim>\<open>df.columns\<close>) and the data rows in file order. A row
  gives the cell of every column name; what it says outside the header is never read.
  \<^verbatim>\<open>len(df)\<close> is the number of rows.
\<close>

record dataframe =
  columns :: "string list"
  rows :: "(string \<Rightarrow> cell) list"

definition len :: "dataframe \<Rightarrow> int" where
  "len df = int (length (rows df))"

text \<open>
  The exceptions that can leave a function of the code: three raised by the code itself,
  and \<open>BaseException\<close>, an exception of the external model that is not an instance of
  \<^verbatim>\<open>Exception\<close> (its name is carried), which no \<^verbatim>\<open>except Exception\<close> catches.
\<close>

datatype py_error = IndexError | ZeroDivisionError | TypeError | BaseException string

section \<open>Run_CSV.py: CSVInputHandler\<close>

text \<open>
  The handler object: the path and the loaded frame, \<^verbatim>\<open>None\<close> when
  \<^verbatim>\<open>pd.read_csv\<close> raised (\<^verbatim>\<open>load_csv\<close> catches every exception).
  \<^verbatim>\<open>pd.read_csv\<close> is the parameter \<open>reader\<close>: for a path it gives the frame or the
  message of the exception it raises.
\<close>

record CSVInputHandler =
  csv_file_path :: string
  data :: "dataframe option"

definition load_csv :: "(string \<Rightarrow> string + dataframe) \<Rightarrow> string \<Rightarrow> CSVInputHandler" where
  "load_csv reader path =
     (case reader path of
        Inr df \<Rightarrow> \<lparr>csv_file_path = path, data = Some df\<rparr>
      | Inl e \<Rightarrow> \<lparr>csv_file_path = path, data = None\<rparr>)"

definition get_row_count :: "CSVInputHandler \<Rightarrow> int" where
  "get_row_count h = (case data h of Some df \<Rightarrow> len df | None \<Rightarrow> 0)"

text \<open>
  The two literal dictionaries of \<^verbatim>\<open>get_value\<close>. A key is a one-character string.
\<close>

definition general_mapping :: "(char \<times> string) list" where
  "general_mapping =
     [(CHR ''A'', ''Date_Acquired''), (CHR ''B'', ''input_folder''),
      (CHR ''C'', ''output_folder''), (CHR ''D'', ''Image_Type''),
      (CHR ''E'', ''DEM_fileName''), (CHR ''F'', ''Name_Landsat_Image''),
      (CHR ''G'', ''Landsat_nr''), (CHR ''H'', ''Thermal_Bands''),
      (CHR ''I'', ''tcoldmin''), (CHR ''J'', ''tcoldmax''),
      (CHR ''K'', ''ndvihot_low''), (CHR ''L'', ''ndvihot_high''),
      (CHR ''M'', ''ndvicold_low''), (CHR ''N'', ''ndvicold_high''),
      (CHR ''O'', ''Hot_Pixel_Constant''), (CHR ''P'', ''Cold_Pixel_Constant'')]"

definition meteo_mapping :: "(char \<times> string) list" where
  "meteo_mapping =
     [(CHR ''A'', ''Date_Acquired''), (CHR ''B'', ''Temp_inst''),
      (CHR ''C'', ''Temp_24''), (CHR ''D'', ''RH_inst''),
      (CHR ''E'', ''RH_24''), (CHR ''F'', ''zx''),
      (CHR ''G'', ''Wind_inst''), (CHR ''H'', ''Wind_24''),
      (CHR ''I'', ''Method_Radiation_24''), (CHR ''J'', ''Rs_24''),
      (CHR ''K'', ''Transm_24''), (CHR ''L'', ''Method_Radiation_inst''),
      (CHR ''M'', ''Rs_in_inst''), (CHR ''N'', ''Transm_inst'')]"

text \<open>
  \<^verbatim>\<open>col_mapping\<close> as \<^verbatim>\<open>get_value\<close> has it after line 92: the general dictionary,
  updated with the meteorological one when the sheet is \<^verbatim>\<open>Meteo_Input\<close> (an entry of
  the update wins).
\<close>

definition col_mapping :: "string \<Rightarrow> char \<Rightarrow> string option" where
  "col_mapping sheet_name =
     (if sheet_name = ''Meteo_Input''
      then map_of (meteo_mapping @ general_mapping)
      else map_of general_mapping)"

text \<open>
  A character of a string is a Unicode code point below U+0100, and \<open>code_point\<close> is
  \<^verbatim>\<open>ord\<close> of it. \<open>py_upper\<close> gives the code points of \<^verbatim>\<open>c.upper()\<close>, which need not
  be one character below U+0100: the letters a to z and the accented letters U+00E0 to
  U+00FE lose 32, the micro sign U+00B5 becomes U+039C, the sharp s U+00DF becomes the two
  letters "SS", U+00FF becomes U+0178, and every other character (the division sign
  U+00F7 too) stays. \<open>py_ord\<close> is \<^verbatim>\<open>ord\<close> of a string given by its code points; it
  raises TypeError unless the string has one character.
\<close>

definition code_point :: "char \<Rightarrow> int" where
  "code_point c = int (of_char c)"

definition py_upper :: "char \<Rightarrow> int list" where
  "py_upper c =
     (let n = code_point c in
      if 97 \<le> n \<and> n \<le> 122 then [n - 32]
      else if n = 181 then [924]
      else if n = 223 then [83, 83]
      else if 224 \<le> n \<and> n \<le> 254 \<and> n \<noteq> 247 then [n - 32]
      else if n = 255 then [376]
      else [n])"

definition py_ord :: "int list \<Rightarrow> py_error + int" where
  "py_ord s = (case s of [n] \<Rightarrow> Inr n | _ \<Rightarrow> Inl TypeError)"

text \<open>
  \<^verbatim>\<open>self.data.columns[col_index]\<close>: a negative index counts from the end, and an index
  outside the header raises IndexError.
\<close>

definition columns_at :: "dataframe \<Rightarrow> int \<Rightarrow> py_error + string" where
  "columns_at df i =
     (let n = int (length (columns df)) in
      if 0 \<le> i \<and> i < n then Inr (columns df ! nat i)
      else if - n \<le> i \<and> i < 0 then Inr (columns df ! nat (i + n))
      else Inl IndexError)"

text \<open>
  Lines 52 to 103 of \<^verbatim>\<open>get_value\<close>: the column name a cell reference stands for.
  \<^verbatim>\<open>cell_ref[0]\<close> raises IndexError on the empty string, and line 99 raises TypeError
  when \<^verbatim>\<open>col_letter.upper()\<close> is not one character. The result \<open>Inr None\<close> is the early
  \<^verbatim>\<open>return None\<close> of line 103.
\<close>

definition col_name_of :: "dataframe \<Rightarrow> string \<Rightarrow> string \<Rightarrow> py_error + string option" where
  "col_name_of df sheet_name cell_ref =
     (case cell_ref of
        [] \<Rightarrow> Inl IndexError
      | col_letter # rest \<Rightarrow>
          (case col_mapping sheet_name col_letter of
             Some col_name \<Rightarrow> Inr (Some col_name)
           | None \<Rightarrow>
               (case py_ord (py_upper col_letter) of
                  Inl e \<Rightarrow> Inl e
                | Inr u \<Rightarrow>
                    (let col_index = u - code_point (CHR ''A'') in
                     if col_index < int (length (columns df))
                     then (case columns_at df col_index of
                             Inl e \<Rightarrow> Inl e
                           | Inr col_name \<Rightarrow> Inr (Some col_name))
                     else Inr None))))"

text \<open>
  Lines 105 to 115: the cell of a named column at a display row (row 2 is the first data
  row). Nothing raises inside the \<^verbatim>\<open>try\<close> here, so its \<^verbatim>\<open>except\<close> has no branch.
\<close>

definition value_at :: "dataframe \<Rightarrow> string \<Rightarrow> int \<Rightarrow> cell option" where
  "value_at df col_name row_index =
     (if col_name \<in> set (columns df)
      then (let row_idx = row_index - 2 in
            if 0 \<le> row_idx \<and> row_idx < len df
            then (let v = (rows df ! nat row_idx) col_name in
                  if notna v then Some v else None)
            else None)
      else None)"

definition get_value :: "CSVInputHandler \<Rightarrow> string \<Rightarrow> string \<Rightarrow> int \<Rightarrow> py_error + cell option" where
  "get_value h sheet_name cell_ref row_index =
     (case data h of
        None \<Rightarrow> Inr None
      | Some df \<Rightarrow>
          (case col_name_of df sheet_name cell_ref of
             Inl e \<Rightarrow> Inl e
           | Inr None \<Rightarrow> Inr None
           | Inr (Some col_name) \<Rightarrow> Inr (value_at df col_name row_index)))"

section \<open>Run_CSV.py: the mock spreadsheet classes\<close>

text \<open>
  \<^verbatim>\<open>MockWorksheet\<close>. Its class declares no \<^verbatim>\<open>row_index\<close>; the wrapper below assigns
  one from outside, so the attribute is optional: \<open>None\<close> until assigned.
\<close>

record MockWorksheet =
  ws_sheet_name :: string
  ws_csv_handler :: CSVInputHandler
  ws_row_index :: "int option"

record MockWorkbook =
  wb_csv_handler :: CSVInputHandler
  wb_sheets :: "(string \<times> MockWorksheet) list"

text \<open>\<^verbatim>\<open>MockCell\<close>; \<open>mc_value\<close> is the attribute \<^verbatim>\<open>_value\<close>.\<close>

record MockCell =
  mc_sheet_name :: string
  mc_cell_ref :: string
  mc_csv_handler :: CSVInputHandler
  mc_value :: "cell option"
  mc_row_index :: int

definition MockWorksheet_init :: "string \<Rightarrow> CSVInputHandler \<Rightarrow> MockWorksheet" where
  "MockWorksheet_init sheet_name csv_handler =
     \<lparr>ws_sheet_name = sheet_name, ws_csv_handler = csv_handler, ws_row_index = None\<rparr>"

definition MockWorkbook_init :: "CSVInputHandler \<Rightarrow> MockWorkbook" where
  "MockWorkbook_init csv_handler =
     \<lparr>wb_csv_handler = csv_handler,
      wb_sheets =
        [(''General_Input'', MockWorksheet_init ''General_Input'' csv_handler),
         (''Meteo_Input'', MockWorksheet_init ''Meteo_Input'' csv_handler),
         (''Landsat_Input'', MockWorksheet_init ''Landsat_Input'' csv_handler),
         (''Soil_Input'', MockWorksheet_init ''Soil_Input'' csv_handler)]\<rparr>"

definition MockCell_init :: "string \<Rightarrow> string \<Rightarrow> CSVInputHandler \<Rightarrow> MockCell" where
  "MockCell_init sheet_name cell_ref csv_handler =
     \<lparr>mc_sheet_name = sheet_name, mc_cell_ref = cell_ref, mc_csv_handler = csv_handler,
      mc_value = None, mc_row_index = 2\<rparr>"

definition set_row_index :: "MockCell \<Rightarrow> int \<Rightarrow> MockCell" where
  "set_row_index c row_index = c\<lparr>mc_row_index := row_index\<rparr>"

text \<open>\<^verbatim>\<open>MockWorkbook.__getitem__\<close>: \<^verbatim>\<open>self.sheets.get(sheet_name, MockWorksheet(...))\<close>.\<close>

definition MockWorkbook_getitem :: "MockWorkbook \<Rightarrow> string \<Rightarrow> MockWorksheet" where
  "MockWorkbook_getitem wb sheet_name =
     (case map_of (wb_sheets wb) sheet_name of
        Some sheet \<Rightarrow> sheet
      | None \<Rightarrow> MockWorksheet_init sheet_name (wb_csv_handler wb))"

definition MockWorksheet_getitem :: "MockWorksheet \<Rightarrow> string \<Rightarrow> MockCell" where
  "MockWorksheet_getitem ws cell_ref =
     MockCell_init (ws_sheet_name ws) cell_ref (ws_csv_handler ws)"

text \<open>
  The property \<^verbatim>\<open>MockCell.value\<close>: the value returned, and the cell with its cache
  filled. An exception of \<^verbatim>\<open>get_value\<close> propagates.
\<close>

definition MockCell_value :: "MockCell \<Rightarrow> py_error + (cell option \<times> MockCell)" where
  "MockCell_value c =
     (case mc_value c of
        Some v \<Rightarrow> Inr (Some v, c)
      | None \<Rightarrow>
          (case get_value (mc_csv_handler c) (mc_sheet_name c) (mc_cell_ref c) (mc_row_index c) of
             Inl e \<Rightarrow> Inl e
           | Inr v \<Rightarrow> Inr (v, c\<lparr>mc_value := v\<rparr>)))"

text \<open>
  What the external model reads with \<^verbatim>\<open>wb[sheet_name][cell_ref].value\<close> on a workbook.
\<close>

definition cell_access :: "MockWorkbook \<Rightarrow> string \<Rightarrow> string \<Rightarrow> py_error + cell option" where
  "cell_access wb sheet_name cell_ref =
     (case MockCell_value (MockWorksheet_getitem (MockWorkbook_getitem wb sheet_name) cell_ref) of
        Inl e \<Rightarrow> Inl e
      | Inr (v, c) \<Rightarrow> Inr v)"

section \<open>The external model and its module\<close>

text \<open>
  The values the attribute \<^verbatim>\<open>load_workbook\<close> of the module \<^verbatim>\<open>pysebal_py3\<close> can hold:
  some constants, a function of the module known by its name, and the closure
  \<^verbatim>\<open>mock_load_workbook\<close> of the wrapper, which returns the workbook it captured.
  \<open>truthy\<close> is Python's truth value of an object, as \<^verbatim>\<open>if original_load_workbook:\<close>
  takes it.
\<close>

datatype pyobj =
    PyNone
  | PyBool bool
  | PyInt int
  | PyStr string
  | PyFunction string
  | mock_load_workbook MockWorkbook

fun truthy :: "pyobj \<Rightarrow> bool" where
  "truthy PyNone = False"
| "truthy (PyBool b) = b"
| "truthy (PyInt i) = (i \<noteq> 0)"
| "truthy (PyStr s) = (s \<noteq> [])"
| "truthy (PyFunction f) = True"
| "truthy (mock_load_workbook wb) = True"

text \<open>
  The module \<^verbatim>\<open>pysebal_py3\<close> as the code sees it: its attribute \<^verbatim>\<open>load_workbook\<close>
  (\<open>None\<close> when the module has no such attribute) and, in \<open>world\<close>, everything else the
  external model reads and changes.
\<close>

record 'w pysebal_py3 =
  load_workbook :: "pyobj option"
  world :: 'w

text \<open>
  A call of \<^verbatim>\<open>pysebal_py3.SEBALcode(row, path)\<close> returns; or raises an exception \<^verbatim>\<open>e\<close>
  that is an instance of \<^verbatim>\<open>Exception\<close>, with \<^verbatim>\<open>str(e)\<close> the message carried; or
  raises an exception that is not an instance of \<^verbatim>\<open>Exception\<close> (\<^verbatim>\<open>SystemExit\<close>,
  \<^verbatim>\<open>KeyboardInterrupt\<close>, \<^verbatim>\<open>GeneratorExit\<close>), whose name is carried.
\<close>

datatype call_result = Returned | Raised string | Escaped string

definition escapes :: "call_result \<Rightarrow> bool" where
  "escapes r = (case r of Returned \<Rightarrow> False | Raised msg \<Rightarrow> False | Escaped x \<Rightarrow> True)"

text \<open>One call of the external model, as the drivers below log it.\<close>

record invocation =
  display_row :: int
  source_path :: string
  outcome :: call_result

text \<open>
  What the code takes from outside: \<^verbatim>\<open>pd.read_csv\<close> (the frame, or the message of the
  exception), \<^verbatim>\<open>os.path.exists\<close>, \<^verbatim>\<open>int\<close> on a string (\<open>None\<close> for ValueError), and
  the external model, which may read and change its module.
\<close>

record 'w env =
  read_csv :: "string \<Rightarrow> string + dataframe"
  path_exists :: "string \<Rightarrow> bool"
  py_int :: "string \<Rightarrow> int option"
  SEBALcode :: "int \<Rightarrow> string \<Rightarrow> 'w pysebal_py3 \<Rightarrow> call_result \<times> 'w pysebal_py3"

text \<open>\<^verbatim>\<open>range(a, b)\<close>.\<close>

definition py_range :: "int \<Rightarrow> int \<Rightarrow> int list" where
  "py_range a b = [a..b - 1]"

section \<open>Run_CSV.py: the wrapper and its driver\<close>

text \<open>
  What \<^verbatim>\<open>SEBALcode_CSV_wrapper\<close> does for its caller: it returns \<^verbatim>\<open>False\<close> (the CSV
  did not load), returns the model's result, or lets the model's exception through, be it
  an instance of \<^verbatim>\<open>Exception\<close> (\<open>WRaised\<close>) or not (\<open>WEscaped\<close>).
\<close>

datatype wrapper_result = WFalse | WReturned | WRaised string | WEscaped string

text \<open>
  The loop of lines 196 to 198 assigns \<^verbatim>\<open>row_index\<close> on every sheet of the workbook.
\<close>

definition assign_row_index :: "MockWorkbook \<Rightarrow> int \<Rightarrow> MockWorkbook" where
  "assign_row_index wb r =
     wb\<lparr>wb_sheets := map (\<lambda>(sheet_name, sheet). (sheet_name, sheet\<lparr>ws_row_index := Some r\<rparr>))
                          (wb_sheets wb)\<rparr>"

text \<open>
  The workbook the patched \<^verbatim>\<open>load_workbook\<close> hands to the model during the run of
  \<^verbatim>\<open>row_number\<close>. The closure captures the workbook object, which the loop then
  changes in place before the model runs; the model sees it after the loop.
\<close>

definition wrapper_workbook :: "CSVInputHandler \<Rightarrow> int \<Rightarrow> MockWorkbook" where
  "wrapper_workbook csv_handler row_number =
     assign_row_index (MockWorkbook_init csv_handler) (row_number + 1)"

text \<open>
  \<^verbatim>\<open>SEBALcode_CSV_wrapper\<close>: the result, the module afterwards, and the calls of the
  model it made. \<open>original_load_workbook\<close> starts as \<^verbatim>\<open>None\<close> and takes the
  attribute when the module has it; the \<^verbatim>\<open>finally\<close> block runs whether the model
  returned or raised.
\<close>

definition SEBALcode_CSV_wrapper ::
  "'w env \<Rightarrow> int \<Rightarrow> string \<Rightarrow> 'w pysebal_py3 \<Rightarrow> wrapper_result \<times> 'w pysebal_py3 \<times> invocation list" where
  "SEBALcode_CSV_wrapper e row_number csv_file m =
     (let csv_handler = load_csv (read_csv e) csv_file in
      case data csv_handler of
        None \<Rightarrow> (WFalse, m, [])
      | Some df \<Rightarrow>
          (let mock_wb = wrapper_workbook csv_handler row_number;
               original_load_workbook = (case load_workbook m of None \<Rightarrow> PyNone | Some f \<Rightarrow> f);
               m1 = m\<lparr>load_workbook := Some (mock_load_workbook mock_wb)\<rparr>;
               r = SEBALcode e (row_number + 1) csv_file m1;
               m2 = (if truthy original_load_workbook
                     then (snd r)\<lparr>load_workbook := Some original_load_workbook\<rparr>
                     else snd r)
           in ((case fst r of
                  Returned \<Rightarrow> WReturned
                | Raised msg \<Rightarrow> WRaised msg
                | Escaped x \<Rightarrow> WEscaped x), m2,
               [\<lparr>display_row = row_number + 1, source_path = csv_file, outcome = fst r\<rparr>])))"

text \<open>
  The state of the loop of \<^verbatim>\<open>run_timeseries_CSV\<close>: its two counters, the module, and
  what it printed and called: the rows announced by "Starting processing for row", the
  rows reported as failed with the error printed, and the calls of the model.
  \<open>csv_escaped\<close> is the exception that left the loop, \<open>None\<close> while there is none.
\<close>

record 'w csv_state =
  csv_successful_runs :: nat
  csv_failed_runs :: nat
  csv_started :: "int list"
  csv_failures :: "(int \<times> string) list"
  csv_invocations :: "invocation list"
  csv_module :: "'w pysebal_py3"
  csv_escaped :: "string option"

text \<open>The \<^verbatim>\<open>except\<close> block of lines 263 to 267, with the text of the exception.\<close>

definition csv_fail :: "'w csv_state \<Rightarrow> int \<Rightarrow> string \<Rightarrow> 'w csv_state" where
  "csv_fail st row_num msg =
     st\<lparr>csv_failed_runs := csv_failed_runs st + 1,
        csv_failures := csv_failures st @ [(row_num + 1, msg)]\<rparr>"

text \<open>
  One turn of the loop. The two \<^verbatim>\<open>get_value\<close> calls are inside the \<^verbatim>\<open>try\<close>, so an
  exception of theirs would be caught as a failure of the row. It never occurs, the
  letters A and F being in the table (\<open>get_value_general_A\<close> and \<open>get_value_general_F\<close>
  below); the empty text stands for its message. \<^verbatim>\<open>except Exception\<close> catches what
  the wrapper lets through as \<open>WRaised\<close>; what it lets through as \<open>WEscaped\<close> leaves
  the loop.
\<close>

definition csv_row :: "'w env \<Rightarrow> CSVInputHandler \<Rightarrow> string \<Rightarrow> int \<Rightarrow> 'w csv_state \<Rightarrow> 'w csv_state" where
  "csv_row e csv_handler csv_file row_num st0 =
     (let st = st0\<lparr>csv_started := csv_started st0 @ [row_num + 1]\<rparr> in
      case get_value csv_handler ''General_Input'' ''A'' (row_num + 2) of
        Inl err \<Rightarrow> csv_fail st row_num []
      | Inr date_acquired \<Rightarrow>
          (case get_value csv_handler ''General_Input'' ''F'' (row_num + 2) of
             Inl err \<Rightarrow> csv_fail st row_num []
           | Inr image_name \<Rightarrow>
               (case SEBALcode_CSV_wrapper e row_num csv_file (csv_module st) of
                  (r, m, calls) \<Rightarrow>
                    (let st1 = st\<lparr>csv_module := m,
                                   csv_invocations := csv_invocations st @ calls\<rparr> in
                     case r of
                       WRaised msg \<Rightarrow> csv_fail st1 row_num msg
                     | WEscaped x \<Rightarrow> st1\<lparr>csv_escaped := Some x\<rparr>
                     | WFalse \<Rightarrow> st1\<lparr>csv_successful_runs := csv_successful_runs st1 + 1\<rparr>
                     | WReturned \<Rightarrow> st1\<lparr>csv_successful_runs := csv_successful_runs st1 + 1\<rparr>))))"

text \<open>
  The \<^verbatim>\<open>for\<close> loop of lines 244 to 267: one turn for each row of the range in order,
  until an exception leaves it.
\<close>

fun csv_rows ::
  "'w env \<Rightarrow> CSVInputHandler \<Rightarrow> string \<Rightarrow> int list \<Rightarrow> 'w csv_state \<Rightarrow> 'w csv_state" where
  "csv_rows e csv_handler csv_file [] st = st"
| "csv_rows e csv_handler csv_file (row_num # rest) st =
     (let st1 = csv_row e csv_handler csv_file row_num st in
      case csv_escaped st1 of
        Some x \<Rightarrow> st1
      | None \<Rightarrow> csv_rows e csv_handler csv_file rest st1)"

text \<open>
  \<^verbatim>\<open>run_timeseries_CSV\<close>: \<open>None\<close> is the early return when the CSV did not load,
  otherwise the state in which the function ends: by returning after the loop or, when
  \<open>csv_escaped\<close> is set, by that exception. The function has no result of its own.
\<close>

definition run_timeseries_CSV ::
  "'w env \<Rightarrow> string \<Rightarrow> int \<Rightarrow> int option \<Rightarrow> 'w pysebal_py3 \<Rightarrow> 'w csv_state option" where
  "run_timeseries_CSV e csv_file start_row end_row m =
     (let csv_handler = load_csv (read_csv e) csv_file in
      case data csv_handler of
        None \<Rightarrow> None
      | Some df \<Rightarrow>
          (let total_rows = get_row_count csv_handler;
               end_row1 = (case end_row of None \<Rightarrow> total_rows | Some n \<Rightarrow> n);
               end_row2 = min end_row1 total_rows
           in Some (csv_rows e csv_handler csv_file (py_range (start_row - 1) end_row2)
                      \<lparr>csv_successful_runs = 0, csv_failed_runs = 0, csv_started = [],
                       csv_failures = [], csv_invocations = [], csv_module = m,
                       csv_escaped = None\<rparr>)))"

section \<open>run_timeseries.py\<close>

definition required_columns :: "string list" where
  "required_columns =
     [''input_folder'', ''output_folder'', ''Image_Type'', ''DEM_fileName'',
      ''Name_Landsat_Image'', ''Date_Acquired'']"

text \<open>What \<^verbatim>\<open>validate_csv_input\<close> prints: one of its three lines.\<close>

datatype message =
    MissingColumns "string list"
  | ReadError string
  | ValidationPassed int

text \<open>
  \<^verbatim>\<open>validate_csv_input\<close> returns \<^verbatim>\<open>(True, df)\<close> or \<^verbatim>\<open>(False, None)\<close>: here \<open>Some df\<close>
  or \<open>None\<close>, next to the line printed.
\<close>

definition validate_csv_input ::
  "(string \<Rightarrow> string + dataframe) \<Rightarrow> string \<Rightarrow> dataframe option \<times> message" where
  "validate_csv_input reader csv_file =
     (case reader csv_file of
        Inl e \<Rightarrow> (None, ReadError e)
      | Inr df \<Rightarrow>
          (let missing_columns = filter (\<lambda>col. col \<notin> set (columns df)) required_columns in
           if missing_columns \<noteq> [] then (None, MissingColumns missing_columns)
           else (Some df, ValidationPassed (len df))))"

text \<open>
  \<^verbatim>\<open>df.iloc[i]\<close>: a negative position counts from the end; a position outside the
  frame raises IndexError, whose text is \<open>iloc_message\<close>.
\<close>

definition iloc :: "dataframe \<Rightarrow> int \<Rightarrow> py_error + (string \<Rightarrow> cell)" where
  "iloc df i =
     (if 0 \<le> i \<and> i < len df then Inr (rows df ! nat i)
      else if - len df \<le> i \<and> i < 0 then Inr (rows df ! nat (i + len df))
      else Inl IndexError)"

definition iloc_message :: string where
  "iloc_message = ''single positional indexer is out-of-bounds''"

text \<open>\<^verbatim>\<open>row_data.get(key, default)\<close> on a row of the frame.\<close>

definition row_get :: "dataframe \<Rightarrow> (string \<Rightarrow> cell) \<Rightarrow> string \<Rightarrow> cell \<Rightarrow> cell" where
  "row_get df row_data key dflt = (if key \<in> set (columns df) then row_data key else dflt)"

datatype status = Success | Failed

text \<open>One dictionary of the list \<^verbatim>\<open>results\<close>.\<close>

record run_result =
  r_run_number :: int
  r_date :: cell
  r_image :: cell
  r_output_folder :: cell
  r_status :: status
  r_error :: "string option"

text \<open>
  The variables of \<^verbatim>\<open>run_timeseries_processing\<close> that its loop changes. The three
  locals read by the \<^verbatim>\<open>except\<close> block through \<^verbatim>\<open>locals()\<close> are \<open>None\<close> while
  unbound; once bound they keep their value into the next turn. \<open>invocations\<close> logs the
  calls of the model, \<open>module\<close> is the module they act on, and \<open>escaped\<close> is the
  exception that left the loop, \<open>None\<close> while there is none.
\<close>

record 'w loop_state =
  successful_runs :: nat
  failed_runs :: nat
  results :: "run_result list"
  date_acquired :: "cell option"
  image_name :: "cell option"
  output_folder :: "cell option"
  invocations :: "invocation list"
  module :: "'w pysebal_py3"
  escaped :: "string option"

definition or_Unknown :: "cell option \<Rightarrow> cell" where
  "or_Unknown v = (case v of Some c \<Rightarrow> c | None \<Rightarrow> Str ''Unknown'')"

text \<open>The \<^verbatim>\<open>except\<close> block of lines 122 to 136.\<close>

definition record_failure :: "'w loop_state \<Rightarrow> int \<Rightarrow> string \<Rightarrow> 'w loop_state" where
  "record_failure st row_number msg =
     st\<lparr>failed_runs := failed_runs st + 1,
        results := results st @
          [\<lparr>r_run_number = row_number,
            r_date = or_Unknown (date_acquired st),
            r_image = or_Unknown (image_name st),
            r_output_folder = or_Unknown (output_folder st),
            r_status = Failed,
            r_error = Some msg\<rparr>]\<rparr>"

text \<open>Lines 110 to 120, reached when the model returned.\<close>

definition record_success :: "'w loop_state \<Rightarrow> int \<Rightarrow> 'w loop_state" where
  "record_success st row_number =
     st\<lparr>successful_runs := successful_runs st + 1,
        results := results st @
          [\<lparr>r_run_number = row_number,
            r_date = or_Unknown (date_acquired st),
            r_image = or_Unknown (image_name st),
            r_output_folder = or_Unknown (output_folder st),
            r_status = Success,
            r_error = None\<rparr>]\<rparr>"

text \<open>
  One turn of the loop of lines 88 to 136, for the 0-based index \<open>i\<close>. An exception of
  the model that is not an instance of \<^verbatim>\<open>Exception\<close> passes the \<^verbatim>\<open>except\<close> block and
  leaves the loop.
\<close>

definition process_row ::
  "'w env \<Rightarrow> string \<Rightarrow> dataframe \<Rightarrow> int \<Rightarrow> 'w loop_state \<Rightarrow> 'w loop_state" where
  "process_row e csv_file df i st =
     (let row_number = i + 1;
          excel_row = i + 2
      in case iloc df i of
           Inl err \<Rightarrow> record_failure st row_number iloc_message
         | Inr row_data \<Rightarrow>
             (let st1 = st\<lparr>date_acquired := Some (row_get df row_data ''Date_Acquired'' (Str ''Unknown'')),
                            image_name := Some (row_get df row_data ''Name_Landsat_Image'' (Str ''Unknown'')),
                            output_folder := Some (row_get df row_data ''output_folder'' (Str ''Unknown''))\<rparr>;
                  r = SEBALcode e excel_row csv_file (module st1);
                  st2 = st1\<lparr>module := snd r,
                            invocations := invocations st1 @
                              [\<lparr>display_row = excel_row, source_path = csv_file, outcome = fst r\<rparr>]\<rparr>
              in case fst r of
                   Returned \<Rightarrow> record_success st2 row_number
                 | Raised msg \<Rightarrow> record_failure st2 row_number msg
                 | Escaped x \<Rightarrow> st2\<lparr>escaped := Some x\<rparr>))"

text \<open>The \<^verbatim>\<open>for\<close> loop: one turn for each index in order, until an exception leaves it.\<close>

fun process_rows ::
  "'w env \<Rightarrow> string \<Rightarrow> dataframe \<Rightarrow> int list \<Rightarrow> 'w loop_state \<Rightarrow> 'w loop_state" where
  "process_rows e csv_file df [] st = st"
| "process_rows e csv_file df (i # rest) st =
     (let st1 = process_row e csv_file df i st in
      case escaped st1 of
        Some x \<Rightarrow> st1
      | None \<Rightarrow> process_rows e csv_file df rest st1)"

definition initial_state :: "'w pysebal_py3 \<Rightarrow> 'w loop_state" where
  "initial_state m =
     \<lparr>successful_runs = 0, failed_runs = 0, results = [],
      date_acquired = None, image_name = None, output_folder = None,
      invocations = [], module = m, escaped = None\<rparr>"

text \<open>
  What a call of \<^verbatim>\<open>run_timeseries_processing\<close> leaves: the value it returns, or the
  exception that leaves it; the line printed by the validation; and the state in which
  the loop ended (the initial one when the loop was not reached).
\<close>

record 'w batch =
  ret :: "py_error + bool"
  validation :: message
  final :: "'w loop_state"

text \<open>
  \<^verbatim>\<open>run_timeseries_processing\<close>. An exception that left the loop leaves the function.
  After the loop, line 145 divides by \<^verbatim>\<open>successful_runs + failed_runs\<close>; with both zero
  the division raises ZeroDivisionError, outside every \<^verbatim>\<open>try\<close>.
\<close>

definition run_timeseries_processing ::
  "'w env \<Rightarrow> string \<Rightarrow> int \<Rightarrow> int option \<Rightarrow> 'w pysebal_py3 \<Rightarrow> 'w batch" where
  "run_timeseries_processing e csv_file start_row end_row m =
     (case validate_csv_input (read_csv e) csv_file of
        (None, msg) \<Rightarrow> \<lparr>ret = Inr False, validation = msg, final = initial_state m\<rparr>
      | (Some df, msg) \<Rightarrow>
          (let total_rows = len df;
               end_row1 = (case end_row of None \<Rightarrow> total_rows | Some n \<Rightarrow> min n total_rows);
               start_idx = start_row - 1;
               end_idx = end_row1;
               st = process_rows e csv_file df (py_range start_idx end_idx) (initial_state m)
           in case escaped st of
                Some x \<Rightarrow> \<lparr>ret = Inl (BaseException x), validation = msg, final = st\<rparr>
              | None \<Rightarrow>
                  if successful_runs st + failed_runs st = 0
                  then \<lparr>ret = Inl ZeroDivisionError, validation = msg, final = st\<rparr>
                  else \<lparr>ret = Inr (successful_runs st > 0), validation = msg, final = st\<rparr>))"

text \<open>
  How the process ends: \<^verbatim>\<open>sys.exit(code)\<close>, or an exception that nothing caught.
\<close>

datatype exit = Exit int | Uncaught py_error

text \<open>
  Lines 189 to 205 of \<^verbatim>\<open>main\<close>: the optional arguments \<^verbatim>\<open>start_row\<close> and
  \<^verbatim>\<open>end_row\<close>. \<open>None\<close> is the exit with status 1 after a ValueError of \<^verbatim>\<open>int\<close>.
\<close>

definition parse_rows :: "'w env \<Rightarrow> string list \<Rightarrow> (int \<times> int option) option" where
  "parse_rows e argv =
     (case (if length argv > 2 then py_int e (argv ! 2) else Some 1) of
        None \<Rightarrow> None
      | Some start_row \<Rightarrow>
          (case (if length argv > 3 then map_option Some (py_int e (argv ! 3)) else Some None) of
             None \<Rightarrow> None
           | Some end_row \<Rightarrow> Some (start_row, end_row)))"

text \<open>
  \<^verbatim>\<open>main\<close>, on \<^verbatim>\<open>sys.argv\<close>. An exception that leaves
  \<^verbatim>\<open>run_timeseries_processing\<close> is caught nowhere.
\<close>

definition main :: "'w env \<Rightarrow> string list \<Rightarrow> 'w pysebal_py3 \<Rightarrow> exit" where
  "main e argv m =
     (if length argv < 2 then Exit 1
      else let csv_file = argv ! 1 in
        if \<not> path_exists e csv_file then Exit 1
        else case parse_rows e argv of
               None \<Rightarrow> Exit 1
             | Some (start_row, end_row) \<Rightarrow>
                 (case ret (run_timeseries_processing e csv_file start_row end_row m) of
                    Inl err \<Rightarrow> Uncaught err
                  | Inr success \<Rightarrow> if success then Exit 0 else Exit 1))"

section \<open>pysebal_csv.py: the meteorological fields\<close>

text \<open>
  \<^verbatim>\<open>row.to_dict()\<close> of \<^verbatim>\<open>read_csv_input\<close>: the dictionary of a row, keyed by the
  header.
\<close>

definition to_dict :: "dataframe \<Rightarrow> (string \<Rightarrow> cell) \<Rightarrow> (string \<Rightarrow> cell option)" where
  "to_dict df row = (\<lambda>key. if key \<in> set (columns df) then Some (row key) else None)"

definition read_csv_input ::
  "(string \<Rightarrow> string + dataframe) \<Rightarrow> string \<Rightarrow> (string \<Rightarrow> cell option) list option" where
  "read_csv_input reader path =
     (case reader path of
        Inl e \<Rightarrow> None
      | Inr df \<Rightarrow> Some (map (to_dict df) (rows df)))"

text \<open>
  What \<^verbatim>\<open>SEBALcode_CSV\<close> binds for a field such as \<^verbatim>\<open>Temp_inst\<close>: the number with
  \<^verbatim>\<open>kind_of_data = 0\<close>, or the name of a map with \<^verbatim>\<open>kind_of_data = 1\<close>.
\<close>

datatype met_field = Constant pyfloat | MapName string

text \<open>
  Lines 118 to 125, for any key and default: \<^verbatim>\<open>float(csv_run_data.get(key, default))\<close>
  under \<^verbatim>\<open>try\<close>, and \<^verbatim>\<open>str(csv_run_data.get(key, ''))\<close> when it raised. \<^verbatim>\<open>float\<close> of a
  number, NaN included, is that number; \<^verbatim>\<open>float\<close> of a string is the parameter
  \<open>float_of_str\<close>, \<open>None\<close> where it raises ValueError.
\<close>

definition met_field_of ::
  "(string \<Rightarrow> pyfloat option) \<Rightarrow> (string \<Rightarrow> cell option) \<Rightarrow> string \<Rightarrow> real \<Rightarrow> met_field" where
  "met_field_of float_of_str csv_run_data key dflt =
     (case csv_run_data key of
        None \<Rightarrow> Constant (FNum dflt)
      | Some (Float f) \<Rightarrow> Constant f
      | Some (Str s) \<Rightarrow>
          (case float_of_str s of
             Some f \<Rightarrow> Constant f
           | None \<Rightarrow> MapName s))"

definition Temp_inst :: "(string \<Rightarrow> pyfloat option) \<Rightarrow> (string \<Rightarrow> cell option) \<Rightarrow> met_field" where
  "Temp_inst float_of_str csv_run_data = met_field_of float_of_str csv_run_data ''Temp_inst'' 25"

definition Temp_24 :: "(string \<Rightarrow> pyfloat option) \<Rightarrow> (string \<Rightarrow> cell option) \<Rightarrow> met_field" where
  "Temp_24 float_of_str csv_run_data = met_field_of float_of_str csv_run_data ''Temp_24'' 22"

section \<open>Notions used to state the properties\<close>

text \<open>
  The last row of the range, as both drivers compute it from the optional \<^verbatim>\<open>end_row\<close>
  and the number of rows.
\<close>

definition last_row :: "dataframe \<Rightarrow> int option \<Rightarrow> int" where
  "last_row df end_row = (case end_row of None \<Rightarrow> len df | Some n \<Rightarrow> min n (len df))"

text \<open>
  The calls of the model for a list of display rows, written without the drivers: the
  model is called for each row in turn, on the module as the call before left it, and
  nothing is called after a call whose exception is not an instance of \<^verbatim>\<open>Exception\<close>.
\<close>

fun model_calls :: "'w env \<Rightarrow> string \<Rightarrow> int list \<Rightarrow> 'w pysebal_py3 \<Rightarrow> invocation list" where
  "model_calls e p [] m = []"
| "model_calls e p (r # rs) m =
     \<lparr>display_row = r, source_path = p, outcome = fst (SEBALcode e r p m)\<rparr> #
       (if escapes (fst (SEBALcode e r p m)) then []
        else model_calls e p rs (snd (SEBALcode e r p m)))"

text \<open>
  The same for the calls that go through \<^verbatim>\<open>SEBALcode_CSV_wrapper\<close>, for a list of the
  row numbers handed to the wrapper: the model is called with the row number plus one on
  the module whose \<^verbatim>\<open>load_workbook\<close> is the mock function of that row, and the module
  the next call starts from is what the \<^verbatim>\<open>finally\<close> block leaves.
\<close>

definition patched :: "CSVInputHandler \<Rightarrow> int \<Rightarrow> 'w pysebal_py3 \<Rightarrow> 'w pysebal_py3" where
  "patched h n m = m\<lparr>load_workbook := Some (mock_load_workbook (wrapper_workbook h n))\<rparr>"

definition restored :: "'w pysebal_py3 \<Rightarrow> 'w pysebal_py3 \<Rightarrow> 'w pysebal_py3" where
  "restored m0 m1 =
     (case load_workbook m0 of
        None \<Rightarrow> m1
      | Some f \<Rightarrow> if truthy f then m1\<lparr>load_workbook := Some f\<rparr> else m1)"

fun patched_calls ::
  "'w env \<Rightarrow> CSVInputHandler \<Rightarrow> string \<Rightarrow> int list \<Rightarrow> 'w pysebal_py3 \<Rightarrow> invocation list" where
  "patched_calls e h p [] m = []"
| "patched_calls e h p (n # ns) m =
     \<lparr>display_row = n + 1, source_path = p,
      outcome = fst (SEBALcode e (n + 1) p (patched h n m))\<rparr> #
       (if escapes (fst (SEBALcode e (n + 1) p (patched h n m))) then []
        else patched_calls e h p ns (restored m (snd (SEBALcode e (n + 1) p (patched h n m)))))"

text \<open>
  A dictionary of \<^verbatim>\<open>results\<close> agrees with a call of the model: the call was made for
  the row of that run with the display row one above its 1-based number, and the
  dictionary says "Success" without error when the call returned, "Failed" with the text
  of the exception when it raised an instance of \<^verbatim>\<open>Exception\<close>.
\<close>

definition recorded :: "run_result \<Rightarrow> invocation \<Rightarrow> bool" where
  "recorded r c =
     (display_row c = r_run_number r + 1 \<and>
      (case outcome c of
         Returned \<Rightarrow> r_status r = Success \<and> r_error r = None
       | Raised msg \<Rightarrow> r_status r = Failed \<and> r_error r = Some msg
       | Escaped x \<Rightarrow> False))"


text \<open>
  The states of the two loops in which no exception has left the loop, the failures on
  record are those of the calls made, and the counters count the calls that returned and
  those that raised.
\<close>

definition loop_agrees :: "'w loop_state \<Rightarrow> bool" where
  "loop_agrees st =
     (escaped st = None
      \<and> list_all2 recorded (results st) (invocations st)
      \<and> successful_runs st = length (filter (\<lambda>c. outcome c = Returned) (invocations st))
      \<and> successful_runs st + failed_runs st = length (invocations st))"


section \<open>A sample table and environment\<close>

text \<open>
  A table of five runs with the six required columns and one meteorological column, left
  empty. The sample environment finds it under \<^verbatim>\<open>runs.csv\<close>, finds under
  \<^verbatim>\<open>bad.csv\<close> a file without the column \<^verbatim>\<open>output_folder\<close>, and runs a model that
  answers by the display row alone and leaves its module as it is.
\<close>

definition sample_row :: "string \<Rightarrow> string \<Rightarrow> string \<Rightarrow> cell" where
  "sample_row folder date key =
     (if key = ''input_folder'' then Str folder
      else if key = ''Date_Acquired'' then Str date
      else if key = ''Image_Type'' then Num 1
      else NaN)"

definition sample_frame :: dataframe where
  "sample_frame =
     \<lparr>columns = [''Date_Acquired'', ''input_folder'', ''output_folder'', ''Image_Type'',
                 ''DEM_fileName'', ''Name_Landsat_Image'', ''Temp_inst''],
      rows = [sample_row ''/data/in'' ''2025-01-01'',
              sample_row ''/data/in2'' ''2025-01-17'',
              sample_row ''/data/in3'' ''2025-02-02'',
              sample_row ''/data/in4'' ''2025-02-18'',
              sample_row ''/data/in5'' ''2025-03-06'']\<rparr>"

definition bad_frame :: dataframe where
  "bad_frame =
     \<lparr>columns = [''Date_Acquired'', ''input_folder'', ''Image_Type'',
                 ''DEM_fileName'', ''Name_Landsat_Image''],
      rows = [sample_row ''/data/in'' ''2025-01-01'']\<rparr>"

definition sample_env :: "(int \<Rightarrow> call_result) \<Rightarrow> unit env" where
  "sample_env model =
     \<lparr>read_csv = (\<lambda>path. if path = ''runs.csv'' then Inr sample_frame
                         else if path = ''bad.csv'' then Inr bad_frame
                         else Inl ''No such file or directory''),
      path_exists = (\<lambda>path. path = ''runs.csv'' \<or> path = ''bad.csv''),
      py_int = map_of [(''1'', 1), (''2'', 2), (''3'', 3), (''4'', 4), (''5'', 5), (''10'', 10)],
      SEBALcode = (\<lambda>row path m. (model row, m))\<rparr>"

text \<open>A module without the attribute \<^verbatim>\<open>load_workbook\<close>, and one that has it.\<close>

definition csv_only_module :: "unit pysebal_py3" where
  "csv_only_module = \<lparr>load_workbook = None, world = ()\<rparr>"

definition excel_module :: "unit pysebal_py3" where
  "excel_module = \<lparr>load_workbook = Some (PyFunction ''openpyxl.load_workbook''), world = ()\<rparr>"

section \<open>Properties of the cell lookup\<close>

lemma col_mapping_general_B: "col_mapping ''General_Input'' CHR ''B'' = Some ''input_folder''"
  by (simp add: col_mapping_def general_mapping_def)

lemma col_mapping_meteo_B: "col_mapping ''Meteo_Input'' CHR ''B'' = Some ''Temp_inst''"
  by (simp add: col_mapping_def general_mapping_def meteo_mapping_def)

text \<open>
  An ASCII character has an upper case of one character, so \<^verbatim>\<open>ord\<close> of it does not
  raise.
\<close>

lemma py_ord_upper_ascii:
  assumes "code_point c < 128"
  shows "py_ord (py_upper c) =
     Inr (if 97 \<le> code_point c \<and> code_point c \<le> 122 then code_point c - 32 else code_point c)"
  using assms by (simp add: py_ord_def py_upper_def Let_def)

lemma get_value_positional:
  assumes "data h = Some df" and "col_mapping sheet c = None"
    and "py_ord (py_upper c) = Inr u" and "code_point (CHR ''A'') \<le> u"
  shows "get_value h sheet (c # rest) r =
          (if u - code_point (CHR ''A'') < int (length (columns df))
           then Inr (value_at df (columns df ! nat (u - code_point (CHR ''A''))) r)
           else Inr None)"
  using assms by (simp add: get_value_def col_name_of_def columns_at_def Let_def)

text \<open>
  The sharp s is in neither table and its upper case has two letters: the lookup raises
  TypeError.
\<close>

lemma get_value_sharp_s:
  assumes "data h = Some df"
  shows "get_value h sheet (CHR 0xDF # rest) r = Inl TypeError"
proof -
  have "col_mapping sheet (CHR 0xDF) = None"
    by (simp add: col_mapping_def general_mapping_def meteo_mapping_def)
  moreover have "py_ord (py_upper (CHR 0xDF)) = Inl TypeError"
    by (simp add: py_ord_def py_upper_def code_point_def)
  ultimately show ?thesis
    using assms by (simp add: get_value_def col_name_of_def)
qed

lemma get_value_general_B:
  assumes "data h = Some df" and "''input_folder'' \<in> set (columns df)" and "rows df \<noteq> []"
    and "(rows df ! 0) ''input_folder'' = Str ''/data/in''"
  shows "get_value h ''General_Input'' (CHR ''B'' # rest) 2 = Inr (Some (Str ''/data/in''))"
  using assms
  by (simp add: get_value_def col_name_of_def col_mapping_general_B value_at_def len_def)

lemma get_value_never_nan: "get_value h s c r \<noteq> Inr (Some NaN)"
  by (auto simp: get_value_def value_at_def Let_def split: option.splits sum.splits)

lemma get_value_cell:
  assumes "data h = Some df" and "col_name_of df s c = Inr (Some col)"
    and "col \<in> set (columns df)" and "2 \<le> r" and "r < len df + 2"
  shows "get_value h s c r =
           Inr (if (rows df ! nat (r - 2)) col = NaN then None
                else Some ((rows df ! nat (r - 2)) col))"
proof (cases "(rows df ! nat (r - 2)) col" rule: notna.cases)
  case 1
  with assms show ?thesis by (simp add: get_value_def value_at_def)
next
  case (2 x)
  with assms show ?thesis by (simp add: get_value_def value_at_def)
next
  case (3 t)
  with assms show ?thesis by (simp add: get_value_def value_at_def)
qed

section \<open>Properties of the loop of run_timeseries_processing\<close>

lemma iloc_in_range: "0 \<le> i \<Longrightarrow> i < len df \<Longrightarrow> iloc df i = Inr (rows df ! nat i)"
  by (simp add: iloc_def)

lemma py_range_in_range:
  "0 \<le> a \<Longrightarrow> b \<le> n \<Longrightarrow> list_all (\<lambda>i. 0 \<le> i \<and> i < n) (py_range a b)"
  by (auto simp: py_range_def list_all_iff)

lemma map_add_upto: "map (\<lambda>i. i + k) [a..b] = [a + k..b + k]"
  by (rule nth_equalityI) simp_all

text \<open>What one turn on a row of the table does to the state, by the outcome of its call.\<close>

lemma process_row_Returned:
  assumes "0 \<le> i" and "i < len df" and "fst (SEBALcode e (i + 2) p (module st)) = Returned"
  shows "invocations (process_row e p df i st) =
      invocations st @ [\<lparr>display_row = i + 2, source_path = p, outcome = Returned\<rparr>]"
    and "module (process_row e p df i st) = snd (SEBALcode e (i + 2) p (module st))"
    and "escaped (process_row e p df i st) = escaped st"
    and "successful_runs (process_row e p df i st) = successful_runs st + 1"
    and "failed_runs (process_row e p df i st) = failed_runs st"
    and "\<exists>x. results (process_row e p df i st) = results st @ [x] \<and> r_run_number x = i + 1
          \<and> r_status x = Success \<and> r_error x = None"
  using assms
  by (simp_all add: process_row_def Let_def record_success_def iloc_in_range)

lemma process_row_Raised:
  assumes "0 \<le> i" and "i < len df" and "fst (SEBALcode e (i + 2) p (module st)) = Raised msg"
  shows "invocations (process_row e p df i st) =
      invocations st @ [\<lparr>display_row = i + 2, source_path = p, outcome = Raised msg\<rparr>]"
    and "module (process_row e p df i st) = snd (SEBALcode e (i + 2) p (module st))"
    and "escaped (process_row e p df i st) = escaped st"
    and "successful_runs (process_row e p df i st) = successful_runs st"
    and "failed_runs (process_row e p df i st) = failed_runs st + 1"
    and "\<exists>x. results (process_row e p df i st) = results st @ [x] \<and> r_run_number x = i + 1
          \<and> r_status x = Failed \<and> r_error x = Some msg"
  using assms
  by (simp_all add: process_row_def Let_def record_failure_def iloc_in_range)

lemma process_row_Escaped:
  assumes "0 \<le> i" and "i < len df" and "fst (SEBALcode e (i + 2) p (module st)) = Escaped x"
  shows "invocations (process_row e p df i st) =
      invocations st @ [\<lparr>display_row = i + 2, source_path = p, outcome = Escaped x\<rparr>]"
    and "escaped (process_row e p df i st) = Some x"
    and "results (process_row e p df i st) = results st"
    and "successful_runs (process_row e p df i st) = successful_runs st"
    and "failed_runs (process_row e p df i st) = failed_runs st"
  using assms
  by (simp_all add: process_row_def Let_def iloc_in_range)

text \<open>The calls the loop makes are those of the model along the display rows.\<close>

lemma process_rows_calls:
  assumes "list_all (\<lambda>i. 0 \<le> i \<and> i < len df) ixs" and "escaped st = None"
  shows "invocations (process_rows e p df ixs st) =
     invocations st @ model_calls e p (map (\<lambda>i. i + 2) ixs) (module st)"
  using assms
proof (induction ixs arbitrary: st)
  case Nil
  then show ?case by simp
next
  case (Cons i ixs)
  then have i: "0 \<le> i" "i < len df" and rest: "list_all (\<lambda>i. 0 \<le> i \<and> i < len df) ixs"
    by simp_all
  show ?case
  proof (cases "fst (SEBALcode e (i + 2) p (module st))")
    case Returned
    note f = process_row_Returned [OF i Returned]
    have "escaped (process_row e p df i st) = None"
      using f(3) Cons.prems(2) by simp
    then show ?thesis
      using Cons.IH [OF rest, of "process_row e p df i st"] f(1,2) Returned
      by (simp add: escapes_def)
  next
    case (Raised msg)
    note f = process_row_Raised [OF i Raised]
    have "escaped (process_row e p df i st) = None"
      using f(3) Cons.prems(2) by simp
    then show ?thesis
      using Cons.IH [OF rest, of "process_row e p df i st"] f(1,2) Raised
      by (simp add: escapes_def)
  next
    case (Escaped x)
    note f = process_row_Escaped [OF i Escaped]
    show ?thesis
      using f(1,2) Escaped by (simp add: escapes_def)
  qed
qed

text \<open>
  The state in which the loop ends when no call raises outside \<^verbatim>\<open>Exception\<close>: nothing
  left the loop, every index has its dictionary, the dictionaries agree with the calls,
  and the counters count the calls that returned and those that raised.
\<close>

lemma loop_agrees_process_row:
  assumes "0 \<le> i" and "i < len df" and "loop_agrees st"
    and "\<not> escapes (fst (SEBALcode e (i + 2) p (module st)))"
  shows "loop_agrees (process_row e p df i st)"
proof (cases "fst (SEBALcode e (i + 2) p (module st))")
  case Returned
  note f = process_row_Returned [OF assms(1,2) Returned]
  from f(6) obtain x where x: "results (process_row e p df i st) = results st @ [x]"
    "r_run_number x = i + 1" "r_status x = Success" "r_error x = None"
    by blast
  show ?thesis
    using assms(3) f(1,3,4,5) x
    by (simp add: loop_agrees_def list_all2_appendI recorded_def)
next
  case (Raised msg)
  note f = process_row_Raised [OF assms(1,2) Raised]
  from f(6) obtain x where x: "results (process_row e p df i st) = results st @ [x]"
    "r_run_number x = i + 1" "r_status x = Failed" "r_error x = Some msg"
    by blast
  show ?thesis
    using assms(3) f(1,3,4,5) x
    by (simp add: loop_agrees_def list_all2_appendI recorded_def)
next
  case (Escaped x)
  with assms(4) show ?thesis by (simp add: escapes_def)
qed

lemma loop_agrees_process_rows:
  assumes "list_all (\<lambda>i. 0 \<le> i \<and> i < len df) ixs" and "loop_agrees st"
    and "list_all (\<lambda>c. \<not> escapes (outcome c)) (model_calls e p (map (\<lambda>i. i + 2) ixs) (module st))"
  shows "loop_agrees (process_rows e p df ixs st)"
  using assms
proof (induction ixs arbitrary: st)
  case Nil
  then show ?case by simp
next
  case (Cons i ixs)
  then have i: "0 \<le> i" "i < len df" and rest: "list_all (\<lambda>i. 0 \<le> i \<and> i < len df) ixs"
    by simp_all
  from Cons.prems(3) have ne: "\<not> escapes (fst (SEBALcode e (i + 2) p (module st)))"
    by simp
  have m: "module (process_row e p df i st) = snd (SEBALcode e (i + 2) p (module st))"
    using ne process_row_Returned(2) [OF i] process_row_Raised(2) [OF i]
    by (cases "fst (SEBALcode e (i + 2) p (module st))") (simp_all add: escapes_def)
  have a: "loop_agrees (process_row e p df i st)"
    by (rule loop_agrees_process_row [OF i Cons.prems(2) ne])
  then have esc: "escaped (process_row e p df i st) = None"
    by (simp add: loop_agrees_def)
  have "list_all (\<lambda>c. \<not> escapes (outcome c))
      (model_calls e p (map (\<lambda>i. i + 2) ixs) (module (process_row e p df i st)))"
    using Cons.prems(3) ne by (simp add: m)
  from Cons.IH [OF rest a this] show ?case
    by (simp add: esc)
qed

text \<open>Without such an exception the model is called for every row of the list.\<close>

lemma model_calls_rows:
  "list_all (\<lambda>c. \<not> escapes (outcome c)) (model_calls e p rs m) \<Longrightarrow>
   map display_row (model_calls e p rs m) = rs"
  by (induction rs arbitrary: m) (simp_all split: if_splits)

section \<open>Properties of the loop of run_timeseries_CSV\<close>

lemma get_value_general_A:
  "data h = Some df \<Longrightarrow>
   get_value h ''General_Input'' ''A'' r = Inr (value_at df ''Date_Acquired'' r)"
  by (simp add: get_value_def col_name_of_def col_mapping_def general_mapping_def)

lemma get_value_general_F:
  "data h = Some df \<Longrightarrow>
   get_value h ''General_Input'' ''F'' r = Inr (value_at df ''Name_Landsat_Image'' r)"
  by (simp add: get_value_def col_name_of_def col_mapping_def general_mapping_def)

text \<open>
  When the CSV loads, the wrapper makes exactly one call, with \<open>row_number + 1\<close>, on the
  patched module, and leaves the module as the \<^verbatim>\<open>finally\<close> block restores it.
\<close>

lemma wrapper_call:
  assumes "read_csv e p = Inr df"
  shows "SEBALcode_CSV_wrapper e n p m =
     ((case fst (SEBALcode e (n + 1) p (patched (load_csv (read_csv e) p) n m)) of
         Returned \<Rightarrow> WReturned | Raised msg \<Rightarrow> WRaised msg | Escaped x \<Rightarrow> WEscaped x),
      restored m (snd (SEBALcode e (n + 1) p (patched (load_csv (read_csv e) p) n m))),
      [\<lparr>display_row = n + 1, source_path = p,
        outcome = fst (SEBALcode e (n + 1) p (patched (load_csv (read_csv e) p) n m))\<rparr>])"
  using assms
  by (auto simp: SEBALcode_CSV_wrapper_def load_csv_def Let_def patched_def restored_def
      split: option.splits)

lemma csv_row_Returned:
  assumes "read_csv e p = Inr df"
    and "fst (SEBALcode e (n + 1) p (patched (load_csv (read_csv e) p) n (csv_module st))) = Returned"
  shows "csv_row e (load_csv (read_csv e) p) p n st =
     st\<lparr>csv_started := csv_started st @ [n + 1],
        csv_module := restored (csv_module st)
          (snd (SEBALcode e (n + 1) p (patched (load_csv (read_csv e) p) n (csv_module st)))),
        csv_invocations := csv_invocations st @
          [\<lparr>display_row = n + 1, source_path = p, outcome = Returned\<rparr>],
        csv_successful_runs := csv_successful_runs st + 1\<rparr>"
proof -
  have d: "data (load_csv (read_csv e) p) = Some df"
    using assms(1) by (simp add: load_csv_def)
  show ?thesis
    using assms(2)
    by (simp add: csv_row_def Let_def get_value_general_A [OF d] get_value_general_F [OF d]
        wrapper_call [OF assms(1)])
qed

lemma csv_row_Raised:
  assumes "read_csv e p = Inr df"
    and "fst (SEBALcode e (n + 1) p (patched (load_csv (read_csv e) p) n (csv_module st))) = Raised msg"
  shows "csv_row e (load_csv (read_csv e) p) p n st =
     st\<lparr>csv_started := csv_started st @ [n + 1],
        csv_module := restored (csv_module st)
          (snd (SEBALcode e (n + 1) p (patched (load_csv (read_csv e) p) n (csv_module st)))),
        csv_invocations := csv_invocations st @
          [\<lparr>display_row = n + 1, source_path = p, outcome = Raised msg\<rparr>],
        csv_failed_runs := csv_failed_runs st + 1,
        csv_failures := csv_failures st @ [(n + 1, msg)]\<rparr>"
proof -
  have d: "data (load_csv (read_csv e) p) = Some df"
    using assms(1) by (simp add: load_csv_def)
  show ?thesis
    using assms(2)
    by (simp add: csv_row_def csv_fail_def Let_def get_value_general_A [OF d]
        get_value_general_F [OF d] wrapper_call [OF assms(1)])
qed

lemma csv_row_Escaped:
  assumes "read_csv e p = Inr df"
    and "fst (SEBALcode e (n + 1) p (patched (load_csv (read_csv e) p) n (csv_module st))) = Escaped x"
  shows "csv_row e (load_csv (read_csv e) p) p n st =
     st\<lparr>csv_started := csv_started st @ [n + 1],
        csv_module := restored (csv_module st)
          (snd (SEBALcode e (n + 1) p (patched (load_csv (read_csv e) p) n (csv_module st)))),
        csv_invocations := csv_invocations st @
          [\<lparr>display_row = n + 1, source_path = p, outcome = Escaped x\<rparr>],
        csv_escaped := Some x\<rparr>"
proof -
  have d: "data (load_csv (read_csv e) p) = Some df"
    using assms(1) by (simp add: load_csv_def)
  show ?thesis
    using assms(2)
    by (simp add: csv_row_def Let_def get_value_general_A [OF d] get_value_general_F [OF d]
        wrapper_call [OF assms(1)])
qed

text \<open>The calls the loop makes are those of the model through the wrapper.\<close>

lemma csv_rows_calls:
  assumes "read_csv e p = Inr df" and "csv_escaped st = None"
  shows "csv_invocations (csv_rows e (load_csv (read_csv e) p) p ns st) =
     csv_invocations st @ patched_calls e (load_csv (read_csv e) p) p ns (csv_module st)"
  using assms(2)
proof (induction ns arbitrary: st)
  case Nil
  then show ?case by simp
next
  case (Cons n ns)
  let ?h = "load_csv (read_csv e) p"
  show ?case
  proof (cases "fst (SEBALcode e (n + 1) p (patched ?h n (csv_module st)))")
    case Returned
    note r = csv_row_Returned [OF assms(1) Returned]
    have "csv_escaped (csv_row e ?h p n st) = None"
      using Cons.prems by (simp add: r)
    then show ?thesis
      using Cons.IH [of "csv_row e ?h p n st"] Returned
      by (simp add: r escapes_def)
  next
    case (Raised msg)
    note r = csv_row_Raised [OF assms(1) Raised]
    have "csv_escaped (csv_row e ?h p n st) = None"
      using Cons.prems by (simp add: r)
    then show ?thesis
      using Cons.IH [of "csv_row e ?h p n st"] Raised
      by (simp add: r escapes_def)
  next
    case (Escaped x)
    note r = csv_row_Escaped [OF assms(1) Escaped]
    show ?thesis
      using Escaped by (simp add: r escapes_def)
  qed
qed



section \<open>Properties of the two drivers\<close>

lemma validate_ok:
  "read_csv e p = Inr df \<Longrightarrow> set required_columns \<subseteq> set (columns df) \<Longrightarrow>
   validate_csv_input (read_csv e) p = (Some df, ValidationPassed (len df))"
  by (auto simp: validate_csv_input_def Let_def filter_empty_conv)

lemma validate_missing:
  "read_csv e p = Inr df \<Longrightarrow> \<not> set required_columns \<subseteq> set (columns df) \<Longrightarrow>
   validate_csv_input (read_csv e) p =
     (None, MissingColumns (filter (\<lambda>col. col \<notin> set (columns df)) required_columns))"
  by (auto simp: validate_csv_input_def Let_def filter_empty_conv)

lemma validate_unreadable:
  "read_csv e p = Inl msg \<Longrightarrow> validate_csv_input (read_csv e) p = (None, ReadError msg)"
  by (simp add: validate_csv_input_def)

lemma last_row_le: "last_row df en \<le> len df"
  by (simp add: last_row_def split: option.splits)


lemma rows_plus_2: "map (\<lambda>i. i + 2) (py_range (s - 1) b) = [s + 1..b + 1]"
proof -
  have "s - 1 + 2 = s + 1" and "b - 1 + 2 = b + 1"
    by simp_all
  then show ?thesis
    unfolding py_range_def map_add_upto by (simp only:)
qed

text \<open>The state in which \<^verbatim>\<open>run_timeseries_processing\<close> ends, and what it returns.\<close>

lemma final_loop:
  assumes "read_csv e p = Inr df" and "set required_columns \<subseteq> set (columns df)"
  shows "final (run_timeseries_processing e p s en m) =
     process_rows e p df (py_range (s - 1) (last_row df en)) (initial_state m)"
  by (simp add: run_timeseries_processing_def validate_ok [OF assms] Let_def last_row_def
      split: option.splits)

lemma ret_loop:
  assumes "read_csv e p = Inr df" and "set required_columns \<subseteq> set (columns df)"
  shows "ret (run_timeseries_processing e p s en m) =
     (case escaped (final (run_timeseries_processing e p s en m)) of
        Some x \<Rightarrow> Inl (BaseException x)
      | None \<Rightarrow>
          if successful_runs (final (run_timeseries_processing e p s en m))
               + failed_runs (final (run_timeseries_processing e p s en m)) = 0
          then Inl ZeroDivisionError
          else Inr (0 < successful_runs (final (run_timeseries_processing e p s en m))))"
  by (simp add: run_timeseries_processing_def validate_ok [OF assms] Let_def
      split: option.splits del: add_is_0)

lemma run_timeseries_CSV_loop:
  assumes "read_csv e p = Inr df"
  shows "run_timeseries_CSV e p s en m =
     Some (csv_rows e (load_csv (read_csv e) p) p (py_range (s - 1) (last_row df en))
        \<lparr>csv_successful_runs = 0, csv_failed_runs = 0, csv_started = [],
         csv_failures = [], csv_invocations = [], csv_module = m, csv_escaped = None\<rparr>)"
proof -
  let ?h = "load_csv (read_csv e) p"
  have d: "data ?h = Some df"
    using assms by (simp add: load_csv_def)
  have "min (case en of None \<Rightarrow> get_row_count ?h | Some n \<Rightarrow> n) (get_row_count ?h) = last_row df en"
    using d by (simp add: get_row_count_def last_row_def split: option.splits)
  then show ?thesis
    using d by (simp add: run_timeseries_CSV_def Let_def)
qed

text \<open>
  For a validated table and a range from row 1 on, the calls logged by
  \<^verbatim>\<open>run_timeseries_processing\<close> are the calls of the model along the display rows of the
  range.
\<close>

lemma run_calls:
  assumes "read_csv e p = Inr df" and "set required_columns \<subseteq> set (columns df)"
    and "1 \<le> s"
  shows "invocations (final (run_timeseries_processing e p s en m)) =
     model_calls e p [s + 1..last_row df en + 1] m"
proof -
  have inr: "list_all (\<lambda>i. 0 \<le> i \<and> i < len df) (py_range (s - 1) (last_row df en))"
    using assms(3) by (intro py_range_in_range) (simp_all add: last_row_le)
  show ?thesis
    using process_rows_calls [OF inr, of "initial_state m" e p]
    by (simp add: final_loop [OF assms(1,2)] rows_plus_2 initial_state_def)
qed

lemma run_agrees:
  assumes "read_csv e p = Inr df" and "set required_columns \<subseteq> set (columns df)"
    and "1 \<le> s"
    and "list_all (\<lambda>c. \<not> escapes (outcome c)) (model_calls e p [s + 1..last_row df en + 1] m)"
  shows "loop_agrees (final (run_timeseries_processing e p s en m))"
proof -
  have inr: "list_all (\<lambda>i. 0 \<le> i \<and> i < len df) (py_range (s - 1) (last_row df en))"
    using assms(3) by (intro py_range_in_range) (simp_all add: last_row_le)
  have a: "loop_agrees (initial_state m)"
    by (simp add: loop_agrees_def initial_state_def)
  have "list_all (\<lambda>c. \<not> escapes (outcome c))
      (model_calls e p (map (\<lambda>i. i + 2) (py_range (s - 1) (last_row df en)))
        (module (initial_state m)))"
    using assms(4) by (simp add: rows_plus_2 initial_state_def)
  from loop_agrees_process_rows [OF inr a this] show ?thesis
    by (simp add: final_loop [OF assms(1,2)])
qed

text \<open>
  What the function returns when no call raises outside \<^verbatim>\<open>Exception\<close> and the range
  has a row: whether some call of the model returned.
\<close>

lemma run_returns:
  assumes "read_csv e p = Inr df" and "set required_columns \<subseteq> set (columns df)"
    and "1 \<le> s" and "s \<le> last_row df en"
    and "list_all (\<lambda>c. \<not> escapes (outcome c)) (model_calls e p [s + 1..last_row df en + 1] m)"
  shows "ret (run_timeseries_processing e p s en m) =
     Inr (list_ex (\<lambda>c. outcome c = Returned) (model_calls e p [s + 1..last_row df en + 1] m))"
proof -
  let ?st = "final (run_timeseries_processing e p s en m)"
  let ?calls = "model_calls e p [s + 1..last_row df en + 1] m"
  have a: "loop_agrees ?st"
    by (rule run_agrees [OF assms(1,2,3,5)])
  have c: "invocations ?st = ?calls"
    by (rule run_calls [OF assms(1,2,3)])
  have "length (map display_row ?calls) = length [s + 1..last_row df en + 1]"
    by (simp only: model_calls_rows [OF assms(5)])
  with assms(4) have ne: "?calls \<noteq> []"
    by auto
  have s: "successful_runs ?st = length (filter (\<lambda>c. outcome c = Returned) ?calls)"
    using a c by (simp add: loop_agrees_def)
  have t: "successful_runs ?st + failed_runs ?st = length ?calls"
    using a c by (simp add: loop_agrees_def)
  with ne have nz: "successful_runs ?st + failed_runs ?st \<noteq> 0"
    by simp
  have e: "escaped ?st = None"
    using a by (simp add: loop_agrees_def)
  have "(0 < length (filter (\<lambda>c. outcome c = Returned) ?calls))
      = list_ex (\<lambda>c. outcome c = Returned) ?calls"
    by (simp add: list_ex_iff filter_empty_conv)
  then show ?thesis
    using nz e s by (simp add: ret_loop [OF assms(1,2)] del: add_is_0)
qed

text \<open>The same for \<^verbatim>\<open>run_timeseries_CSV\<close> and the calls through the wrapper.\<close>

lemma csv_run_calls:
  assumes "read_csv e p = Inr df"
  shows "map_option csv_invocations (run_timeseries_CSV e p s en m) =
     Some (patched_calls e (load_csv (read_csv e) p) p [s - 1..last_row df en - 1] m)"
  using csv_rows_calls [OF assms, of
      "\<lparr>csv_successful_runs = 0, csv_failed_runs = 0, csv_started = [],
        csv_failures = [], csv_invocations = [], csv_module = m, csv_escaped = None\<rparr>"
      "py_range (s - 1) (last_row df en)"]
  by (simp add: run_timeseries_CSV_loop [OF assms] py_range_def)


section \<open>Facts about the sample table\<close>

lemma sample_handler:
  "data (load_csv (read_csv (sample_env f)) ''runs.csv'') = Some sample_frame"
  by (simp add: load_csv_def sample_env_def)

lemma col_mapping_general_Q: "col_mapping ''General_Input'' CHR ''Q'' = None"
  by (simp add: col_mapping_def general_mapping_def)

lemma col_mapping_general_b: "col_mapping ''General_Input'' CHR ''b'' = None"
  by (simp add: col_mapping_def general_mapping_def)

lemma py_ord_upper_b: "py_ord (py_upper CHR ''b'') = Inr 66"
  by (simp add: py_ord_def py_upper_def code_point_def)

lemma py_ord_upper_Q: "py_ord (py_upper CHR ''Q'') = Inr 81"
  by (simp add: py_ord_def py_upper_def code_point_def)

lemma code_point_A: "code_point CHR ''A'' = 65"
  by (simp add: code_point_def)

lemma sample_read: "read_csv (sample_env f) ''runs.csv'' = Inr sample_frame"
  by (simp add: sample_env_def)

lemma sample_required: "set required_columns \<subseteq> set (columns sample_frame)"
  by (simp add: required_columns_def sample_frame_def)

lemma sample_len: "len sample_frame = 5"
  by (simp add: len_def sample_frame_def)

lemma sample_last_row:
  "last_row sample_frame None = 5"
  "last_row sample_frame (Some 1) = 1"
  "last_row sample_frame (Some 2) = 2"
  "last_row sample_frame (Some 5) = 5"
  "last_row sample_frame (Some 10) = 5"
  by (simp_all add: last_row_def sample_len)

lemma py_range_0_5: "py_range 0 5 = [0, 1, 2, 3, 4]"
  by code_simp

lemma sample_model: "SEBALcode (sample_env f) r p m = (f r, m)"
  by (simp add: sample_env_def)



lemma upto_1_4: "[1..4] = [1, 2, 3, 4]"
  by code_simp

lemma sample_args:
  "parse_rows (sample_env f) [prog, p] = Some (1, None)"
  "parse_rows (sample_env f) [prog, p, ''4'', ''2''] = Some (4, Some 2)"
  "parse_rows (sample_env f) [prog, p, ''1'', ''5''] = Some (1, Some 5)"
  by (simp_all add: parse_rows_def sample_env_def)

lemma sample_exists: "path_exists (sample_env f) ''runs.csv''"
  by (simp add: sample_env_def)

section \<open>Further facts about the drivers, the mock workbook and the wrapper\<close>

text \<open>With the table validated and no row in the range, the division of line 145 raises.\<close>

lemma empty_range_ZeroDivisionError:
  assumes "read_csv e p = Inr df" and "set required_columns \<subseteq> set (columns df)"
    and "last_row df en < s"
  shows "ret (run_timeseries_processing e p s en m) = Inl ZeroDivisionError"
proof -
  have "py_range (s - 1) (last_row df en) = []"
    using assms(3) by (simp add: py_range_def)
  then have "final (run_timeseries_processing e p s en m) = initial_state m"
    by (simp add: final_loop [OF assms(1,2)])
  then show ?thesis
    by (simp add: ret_loop [OF assms(1,2)] initial_state_def)
qed

text \<open>
  A cell of the workbook the wrapper builds is read at display row 2, whatever the row of
  the run: the row assigned to the sheets is not read by \<^verbatim>\<open>MockCell\<close>.
\<close>

lemma getitem_wrapper_workbook:
  "ws_sheet_name (MockWorkbook_getitem (wrapper_workbook h r) s) = s
   \<and> ws_csv_handler (MockWorkbook_getitem (wrapper_workbook h r) s) = h"
  by (simp add: MockWorkbook_getitem_def wrapper_workbook_def assign_row_index_def
      MockWorkbook_init_def MockWorksheet_init_def)

lemma cell_access_row_2:
  "cell_access (wrapper_workbook h r) s c = get_value h s c 2"
  by (simp add: cell_access_def MockCell_value_def MockWorksheet_getitem_def MockCell_init_def
      getitem_wrapper_workbook split: sum.splits)

text \<open>The module after the wrapper.\<close>

lemma wrapper_module:
  assumes "read_csv e p = Inr df"
  shows "load_workbook (fst (snd (SEBALcode_CSV_wrapper e r p m))) =
     (if truthy (case load_workbook m of None \<Rightarrow> PyNone | Some f \<Rightarrow> f)
      then load_workbook m
      else load_workbook (snd (SEBALcode e (r + 1) p
             (m\<lparr>load_workbook := Some (mock_load_workbook (wrapper_workbook (load_csv (read_csv e) p) r))\<rparr>))))"
  using assms
  by (auto simp: SEBALcode_CSV_wrapper_def load_csv_def Let_def split: option.splits)

lemma wrapper_no_data:
  assumes "read_csv e p = Inl msg"
  shows "SEBALcode_CSV_wrapper e r p m = (WFalse, m, [])"
  using assms by (simp add: SEBALcode_CSV_wrapper_def load_csv_def)



section \<open>The claims about the cell lookup\<close>

text \<open>
  Claim C7. The alias table is a fixed table per sheet: the letter B stands for
  \<^verbatim>\<open>input_folder\<close> on the general sheet and for \<^verbatim>\<open>Temp_inst\<close> on the meteorological
  one, so the lookup of B at display row 2 on the general sheet returns "/data/in" when
  that is the input folder of the first data row. A letter outside the table of its sheet
  whose upper case is one character at or after A, as it is for every ASCII letter, is
  taken by the position of that character after A as an index into the header, and the
  lookup returns \<^verbatim>\<open>None\<close>, without raising, when that index is beyond the header.
\<close>

theorem alias_lookup:
  "col_mapping ''General_Input'' CHR ''B'' = Some ''input_folder''
   \<and> col_mapping ''Meteo_Input'' CHR ''B'' = Some ''Temp_inst''
   \<and> (data h = Some df \<and> ''input_folder'' \<in> set (columns df) \<and> rows df \<noteq> []
        \<and> (rows df ! 0) ''input_folder'' = Str ''/data/in''
      \<longrightarrow> get_value h ''General_Input'' (CHR ''B'' # rest) 2 = Inr (Some (Str ''/data/in'')))
   \<and> (code_point c < 128
      \<longrightarrow> py_ord (py_upper c) =
            Inr (if 97 \<le> code_point c \<and> code_point c \<le> 122 then code_point c - 32
                 else code_point c))
   \<and> (data h = Some df \<and> col_mapping sheet c = None \<and> py_ord (py_upper c) = Inr u
        \<and> code_point (CHR ''A'') \<le> u
      \<longrightarrow> get_value h sheet (c # rest) r =
            (if u - code_point (CHR ''A'') < int (length (columns df))
             then Inr (value_at df (columns df ! nat (u - code_point (CHR ''A''))) r)
             else Inr None))"
  using col_mapping_general_B col_mapping_meteo_B get_value_general_B [of h df rest]
    get_value_positional [of h df sheet c u rest r] py_ord_upper_ascii [of c]
  by blast

text \<open>
  On the sample table, of seven columns: B on the general sheet at row 2; the letter Q,
  whose index 16 is beyond the header; and the small letter b, not in the table, which
  stands for the second column.
\<close>

theorem alias_lookup_witness:
  "get_value (load_csv (read_csv (sample_env (\<lambda>r. Returned))) ''runs.csv'') ''General_Input'' ''B'' 2
     = Inr (Some (Str ''/data/in''))
   \<and> py_ord (py_upper CHR ''Q'') = Inr 81
   \<and> get_value (load_csv (read_csv (sample_env (\<lambda>r. Returned))) ''runs.csv'') ''General_Input'' ''Q2'' 2
     = Inr None
   \<and> get_value (load_csv (read_csv (sample_env (\<lambda>r. Returned))) ''runs.csv'') ''General_Input'' ''b3'' 3
     = Inr (Some (Str ''/data/in2''))"
proof -
  let ?h = "load_csv (read_csv (sample_env (\<lambda>r. Returned))) ''runs.csv''"
  have d: "data ?h = Some sample_frame" by (rule sample_handler)
  have B: "''input_folder'' \<in> set (columns sample_frame) \<and> rows sample_frame \<noteq> []
        \<and> (rows sample_frame ! 0) ''input_folder'' = Str ''/data/in''"
    by (simp add: sample_frame_def sample_row_def)
  have a: "code_point CHR ''Q'' < 128"
    by (simp add: code_point_def)
  have 1: "get_value ?h ''General_Input'' ''B'' 2 = Inr (Some (Str ''/data/in''))"
    using alias_lookup [of ?h sample_frame "[]" "CHR ''Q''" "''General_Input''" 81 2] d B
    by blast
  have 2: "py_ord (py_upper CHR ''Q'') = Inr 81"
    using alias_lookup [of ?h sample_frame "[]" "CHR ''Q''" "''General_Input''" 81 2] a
    by (simp add: code_point_def)
  have 3: "get_value ?h ''General_Input'' ''Q2'' 2 = Inr None"
    using alias_lookup [of ?h sample_frame "''2''" "CHR ''Q''" "''General_Input''" 81 2] d
      col_mapping_general_Q py_ord_upper_Q
    by (simp add: code_point_A sample_frame_def)
  have 4: "get_value ?h ''General_Input'' ''b3'' 3 = Inr (Some (Str ''/data/in2''))"
    using alias_lookup [of ?h sample_frame "''3''" "CHR ''b''" "''General_Input''" 66 3] d
      col_mapping_general_b py_ord_upper_b
    by (simp add: code_point_A sample_frame_def value_at_def len_def sample_row_def)
  from 1 2 3 4 show ?thesis by simp
qed

text \<open>
  Claim C8, as amended. A cell read through \<^verbatim>\<open>CSVInputHandler.get_value\<close> never comes
  back as NaN: where the column and the row exist, the lookup returns \<^verbatim>\<open>None\<close> for a
  NaN cell and the cell itself, unchanged, otherwise (so no zero and no empty string is
  put in its place). \<^verbatim>\<open>SEBALcode_CSV\<close> has no such step: see the counterexample.
\<close>

theorem get_value_marks_absent:
  "get_value h s c r \<noteq> Inr (Some NaN)
   \<and> (data h = Some df \<and> col_name_of df s c = Inr (Some col) \<and> col \<in> set (columns df)
        \<and> 2 \<le> r \<and> r < len df + 2
      \<longrightarrow> get_value h s c r =
            Inr (if (rows df ! nat (r - 2)) col = NaN then None
                 else Some ((rows df ! nat (r - 2)) col)))"
  using get_value_never_nan [of h s c r] get_value_cell [of h df s c col r] by blast

theorem get_value_marks_absent_witness:
  "get_value (load_csv (read_csv (sample_env (\<lambda>r. Returned))) ''runs.csv'') ''Meteo_Input'' ''B2'' 2
     = Inr None
  \<and> get_value (load_csv (read_csv (sample_env (\<lambda>r. Returned))) ''runs.csv'') ''General_Input'' ''D2'' 2
     = Inr (Some (Num 1))"
proof -
  let ?h = "load_csv (read_csv (sample_env (\<lambda>r. Returned))) ''runs.csv''"
  have d: "data ?h = Some sample_frame" by (rule sample_handler)
  have c1: "col_name_of sample_frame ''Meteo_Input'' ''B2'' = Inr (Some ''Temp_inst'')"
    by (simp add: col_name_of_def col_mapping_meteo_B)
  have c2: "col_name_of sample_frame ''General_Input'' ''D2'' = Inr (Some ''Image_Type'')"
    by (simp add: col_name_of_def col_mapping_def general_mapping_def)
  have r: "(2::int) \<le> 2 \<and> 2 < len sample_frame + 2"
    by (simp add: len_def sample_frame_def)
  have m: "''Temp_inst'' \<in> set (columns sample_frame)"
    "''Image_Type'' \<in> set (columns sample_frame)"
    by (simp_all add: sample_frame_def)
  have 1: "get_value ?h ''Meteo_Input'' ''B2'' 2 = Inr None"
    using get_value_marks_absent [of ?h "''Meteo_Input''" "''B2''" 2 sample_frame "''Temp_inst''"]
      d c1 r m
    by (simp add: sample_frame_def sample_row_def)
  have 2: "get_value ?h ''General_Input'' ''D2'' 2 = Inr (Some (Num 1))"
    using get_value_marks_absent [of ?h "''General_Input''" "''D2''" 2 sample_frame "''Image_Type''"]
      d c2 r m
    by (simp add: sample_frame_def sample_row_def)
  from 1 2 show ?thesis by simp
qed

text \<open>
  Against claim C8 as stated: the first row of the sample table has no value for
  \<^verbatim>\<open>Temp_inst\<close> (NaN), and \<^verbatim>\<open>SEBALcode_CSV\<close> binds \<^verbatim>\<open>Temp_inst\<close> to the number NaN with
  \<^verbatim>\<open>kind_of_data = 0\<close>, a numeric constant, not to a marker of absence.
\<close>

theorem nan_meteo_field_counterexample:
  "(rows sample_frame ! 0) ''Temp_inst'' = NaN
   \<and> Temp_inst (\<lambda>s. None) (to_dict sample_frame (rows sample_frame ! 0)) = Constant FNan"
  by (simp add: Temp_inst_def met_field_of_def to_dict_def sample_frame_def sample_row_def)

section \<open>The claims about the batch drivers\<close>




text \<open>
  Claim C2. \<^verbatim>\<open>run_timeseries_processing\<close> checks the required columns first. When the
  file is read and a required column is not in its header, the function prints the error
  that lists the required columns missing from the header, returns \<^verbatim>\<open>False\<close> with no
  run recorded and no call of the model made, and \<^verbatim>\<open>main\<close> exits with status 1.
\<close>

theorem missing_columns_fatal:
  assumes "read_csv e csv_file = Inr df"
    and "\<not> set required_columns \<subseteq> set (columns df)"
  shows
    "validation (run_timeseries_processing e csv_file start_row end_row m)
       = MissingColumns (filter (\<lambda>col. col \<notin> set (columns df)) required_columns)
     \<and> filter (\<lambda>col. col \<notin> set (columns df)) required_columns \<noteq> []
     \<and> ret (run_timeseries_processing e csv_file start_row end_row m) = Inr False
     \<and> invocations (final (run_timeseries_processing e csv_file start_row end_row m)) = []
     \<and> results (final (run_timeseries_processing e csv_file start_row end_row m)) = []
     \<and> module (final (run_timeseries_processing e csv_file start_row end_row m)) = m
     \<and> main e (prog # csv_file # args) m = Exit 1"
proof -
  note v = validate_missing [OF assms]
  have run: "\<And>s en. run_timeseries_processing e csv_file s en m =
      \<lparr>ret = Inr False,
       validation = MissingColumns (filter (\<lambda>col. col \<notin> set (columns df)) required_columns),
       final = initial_state m\<rparr>"
    by (simp add: run_timeseries_processing_def v)
  have ne: "filter (\<lambda>col. col \<notin> set (columns df)) required_columns \<noteq> []"
    using assms(2) by (auto simp: filter_empty_conv)
  have "main e (prog # csv_file # args) m = Exit 1"
    by (simp add: main_def run Let_def split: option.splits prod.splits)
  with ne show ?thesis
    by (simp add: run initial_state_def)
qed

theorem missing_columns_fatal_witness:
  "validation (run_timeseries_processing (sample_env (\<lambda>r. Returned)) ''bad.csv'' 1 None csv_only_module)
     = MissingColumns [''output_folder'']
   \<and> ret (run_timeseries_processing (sample_env (\<lambda>r. Returned)) ''bad.csv'' 1 None csv_only_module)
     = Inr False
   \<and> invocations (final (run_timeseries_processing (sample_env (\<lambda>r. Returned)) ''bad.csv'' 1 None
        csv_only_module)) = []
   \<and> main (sample_env (\<lambda>r. Returned)) [''run_timeseries.py'', ''bad.csv''] csv_only_module = Exit 1"
proof -
  have r: "read_csv (sample_env (\<lambda>r. Returned)) ''bad.csv'' = Inr bad_frame"
    by (simp add: sample_env_def)
  have n: "\<not> set required_columns \<subseteq> set (columns bad_frame)"
    by (simp add: required_columns_def bad_frame_def)
  have f: "filter (\<lambda>col. col \<notin> set (columns bad_frame)) required_columns = [''output_folder'']"
    by (simp add: required_columns_def bad_frame_def)
  show ?thesis
    using missing_columns_fatal [OF r n, of 1 None csv_only_module "''run_timeseries.py''" "[]"]
    by (simp add: f)
qed

text \<open>
  Claim C3 says that the driver clamps the end of the range to the number of rows and
  attempts the rows from the start to the clamped end, so rows 2 to 5 for a table of five
  rows with start 2 and end 10. Both drivers clamp the end to 5 and make four runs,
  numbered 2 to 5. \<^verbatim>\<open>run_timeseries_processing\<close> calls the model with the display rows
  3 to 6, which are the data rows 2 to 5. \<^verbatim>\<open>run_timeseries_CSV\<close> calls it with the
  display rows 2 to 5, which are the data rows 1 to 4: the rows it runs are not those of
  the range. With a model that raises on the first data row (display row 2) and nowhere
  else, the first driver has no failure and the second reports its run 2 as failed.
\<close>

theorem csv_driver_runs_lower_rows:
  "map r_run_number (results (final (run_timeseries_processing
       (sample_env (\<lambda>r. if r = 2 then Raised ''first data row'' else Returned))
       ''runs.csv'' 2 (Some 10) csv_only_module))) = [2, 3, 4, 5]
   \<and> invocations (final (run_timeseries_processing
       (sample_env (\<lambda>r. if r = 2 then Raised ''first data row'' else Returned))
       ''runs.csv'' 2 (Some 10) csv_only_module))
      = model_calls (sample_env (\<lambda>r. if r = 2 then Raised ''first data row'' else Returned))
          ''runs.csv'' [3, 4, 5, 6] csv_only_module
   \<and> map r_status (results (final (run_timeseries_processing
       (sample_env (\<lambda>r. if r = 2 then Raised ''first data row'' else Returned))
       ''runs.csv'' 2 (Some 10) csv_only_module))) = [Success, Success, Success, Success]
   \<and> map_option csv_started (run_timeseries_CSV
       (sample_env (\<lambda>r. if r = 2 then Raised ''first data row'' else Returned))
       ''runs.csv'' 2 (Some 10) csv_only_module) = Some [2, 3, 4, 5]
   \<and> map_option csv_invocations (run_timeseries_CSV
       (sample_env (\<lambda>r. if r = 2 then Raised ''first data row'' else Returned))
       ''runs.csv'' 2 (Some 10) csv_only_module)
      = Some (patched_calls (sample_env (\<lambda>r. if r = 2 then Raised ''first data row'' else Returned))
          (load_csv (read_csv (sample_env (\<lambda>r. if r = 2 then Raised ''first data row'' else Returned)))
             ''runs.csv'')
          ''runs.csv'' [1, 2, 3, 4] csv_only_module)
   \<and> map_option (\<lambda>st. map display_row (csv_invocations st)) (run_timeseries_CSV
       (sample_env (\<lambda>r. if r = 2 then Raised ''first data row'' else Returned))
       ''runs.csv'' 2 (Some 10) csv_only_module) = Some [2, 3, 4, 5]
   \<and> map_option csv_failures (run_timeseries_CSV
       (sample_env (\<lambda>r. if r = 2 then Raised ''first data row'' else Returned))
       ''runs.csv'' 2 (Some 10) csv_only_module) = Some [(2, ''first data row'')]"
proof -
  let ?f = "\<lambda>r::int. if r = 2 then Raised ''first data row'' else Returned"
  let ?e = "sample_env ?f"
  let ?b = "run_timeseries_processing ?e ''runs.csv'' 2 (Some 10) csv_only_module"
  let ?h = "load_csv (read_csv ?e) ''runs.csv''"
  have s: "(1::int) \<le> 2"
    by simp
  have c: "invocations (final ?b) = model_calls ?e ''runs.csv'' [3, 4, 5, 6] csv_only_module"
    using run_calls [OF sample_read sample_required s, of ?f "Some 10" csv_only_module]
    by (simp add: sample_last_row del: model_calls.simps)
  have ts: "map r_run_number (results (final ?b)) = [2, 3, 4, 5]
      \<and> map r_status (results (final ?b)) = [Success, Success, Success, Success]"
    by (simp add: final_loop [OF sample_read sample_required] sample_last_row py_range_def
        upto_1_4 process_row_def iloc_def sample_len Let_def sample_model record_success_def
        initial_state_def)
  have ci: "map_option csv_invocations (run_timeseries_CSV ?e ''runs.csv'' 2 (Some 10) csv_only_module)
      = Some (patched_calls ?e ?h ''runs.csv'' [1, 2, 3, 4] csv_only_module)"
    using csv_run_calls [OF sample_read, of ?f 2 "Some 10" csv_only_module]
    by (simp add: sample_last_row upto_1_4 del: patched_calls.simps)
  have csv: "map_option csv_started (run_timeseries_CSV ?e ''runs.csv'' 2 (Some 10) csv_only_module)
        = Some [2, 3, 4, 5]
      \<and> map_option (\<lambda>st. map display_row (csv_invocations st))
          (run_timeseries_CSV ?e ''runs.csv'' 2 (Some 10) csv_only_module) = Some [2, 3, 4, 5]
      \<and> map_option csv_failures (run_timeseries_CSV ?e ''runs.csv'' 2 (Some 10) csv_only_module)
        = Some [(2, ''first data row'')]"
    by (simp add: run_timeseries_CSV_loop [OF sample_read] sample_last_row py_range_def upto_1_4
        csv_row_def csv_fail_def Let_def get_value_general_A [OF sample_handler]
        get_value_general_F [OF sample_handler] wrapper_call [OF sample_read] sample_model)
  from c ts ci csv show ?thesis
    by blast
qed

text \<open>
  Claim C4 says that a range left empty by the clamping ends the batch normally with an
  empty report. \<^verbatim>\<open>run_timeseries_processing\<close> does not: on the sample table with start 4
  and end 2 no run is attempted and the function raises ZeroDivisionError, which leaves
  \<^verbatim>\<open>main\<close> uncaught. \<^verbatim>\<open>run_timeseries_CSV\<close>, which has no such division, returns
  normally on the same input.
\<close>

theorem empty_range_raises:
  "ret (run_timeseries_processing (sample_env (\<lambda>r. Returned)) ''runs.csv'' 4 (Some 2) csv_only_module)
     = Inl ZeroDivisionError
   \<and> results (final (run_timeseries_processing (sample_env (\<lambda>r. Returned)) ''runs.csv'' 4 (Some 2)
        csv_only_module)) = []
   \<and> main (sample_env (\<lambda>r. Returned)) [''run_timeseries.py'', ''runs.csv'', ''4'', ''2''] csv_only_module
     = Uncaught ZeroDivisionError
   \<and> map_option csv_started
        (run_timeseries_CSV (sample_env (\<lambda>r. Returned)) ''runs.csv'' 4 (Some 2) csv_only_module)
     = Some []"
proof -
  let ?e = "sample_env (\<lambda>r. Returned)"
  have z: "ret (run_timeseries_processing ?e ''runs.csv'' 4 (Some 2) csv_only_module)
      = Inl ZeroDivisionError"
    by (rule empty_range_ZeroDivisionError [OF sample_read sample_required])
      (simp add: sample_last_row)
  have r: "results (final (run_timeseries_processing ?e ''runs.csv'' 4 (Some 2) csv_only_module)) = []"
    by (simp add: final_loop [OF sample_read sample_required] sample_last_row py_range_def
        initial_state_def)
  have m: "main ?e [''run_timeseries.py'', ''runs.csv'', ''4'', ''2''] csv_only_module
      = Uncaught ZeroDivisionError"
    by (simp add: main_def sample_exists sample_args z)
  have c: "map_option csv_started (run_timeseries_CSV ?e ''runs.csv'' 4 (Some 2) csv_only_module)
      = Some []"
    by (simp add: run_timeseries_CSV_loop [OF sample_read] sample_last_row py_range_def)
  from z r m c show ?thesis by simp
qed

text \<open>
  Claim C5, as amended. \<^verbatim>\<open>main\<close> exits with status 1 when no file is named on the
  command line, when the file does not exist, when a row argument is not an integer, when
  the file cannot be read and when a required column is missing. When the file exists
  and passes the validation, the row arguments are integers, the range starts at row 1 or
  later and holds a row, and every exception the model raises is an instance of
  \<^verbatim>\<open>Exception\<close>, \<^verbatim>\<open>main\<close> exits with status 0 if at least one call of the model
  returned, also when other calls raised, and with status 1 if every call raised.
\<close>

theorem exit_status:
  "(length argv < 2 \<longrightarrow> main e argv m = Exit 1)
   \<and> (2 \<le> length argv \<and> \<not> path_exists e (argv ! 1) \<longrightarrow> main e argv m = Exit 1)
   \<and> (2 < length argv \<and> py_int e (argv ! 2) = None \<longrightarrow> main e argv m = Exit 1)
   \<and> (3 < length argv \<and> py_int e (argv ! 3) = None \<longrightarrow> main e argv m = Exit 1)
   \<and> (2 \<le> length argv \<and> read_csv e (argv ! 1) = Inl msg \<longrightarrow> main e argv m = Exit 1)
   \<and> (2 \<le> length argv \<and> read_csv e (argv ! 1) = Inr df
        \<and> \<not> set required_columns \<subseteq> set (columns df)
      \<longrightarrow> main e argv m = Exit 1)
   \<and> (2 \<le> length argv \<and> path_exists e (argv ! 1)
        \<and> parse_rows e argv = Some (start_row, end_row)
        \<and> read_csv e (argv ! 1) = Inr df \<and> set required_columns \<subseteq> set (columns df)
        \<and> 1 \<le> start_row \<and> start_row \<le> last_row df end_row
        \<and> list_all (\<lambda>c. \<not> escapes (outcome c))
             (model_calls e (argv ! 1) [start_row + 1..last_row df end_row + 1] m)
      \<longrightarrow> main e argv m =
            (if list_ex (\<lambda>c. outcome c = Returned)
                  (model_calls e (argv ! 1) [start_row + 1..last_row df end_row + 1] m)
             then Exit 0 else Exit 1))"
proof -
  define p where "p = argv ! 1"
  have invalid: "main e argv m = Exit 1"
    if "2 \<le> length argv" and "fst (validate_csv_input (read_csv e) p) = None"
  proof -
    from that(2) have "ret (run_timeseries_processing e p s en m) = Inr False" for s en
      by (cases "validate_csv_input (read_csv e) p") (simp add: run_timeseries_processing_def)
    with that(1) show ?thesis
      by (simp add: main_def Let_def p_def split: option.splits prod.splits)
  qed
  have 1: "length argv < 2 \<longrightarrow> main e argv m = Exit 1"
    by (simp add: main_def)
  have 2: "2 \<le> length argv \<and> \<not> path_exists e (argv ! 1) \<longrightarrow> main e argv m = Exit 1"
    by (simp add: main_def)
  have 3: "2 < length argv \<and> py_int e (argv ! 2) = None \<longrightarrow> main e argv m = Exit 1"
    by (simp add: main_def parse_rows_def Let_def)
  have 4: "3 < length argv \<and> py_int e (argv ! 3) = None \<longrightarrow> main e argv m = Exit 1"
    by (simp add: main_def parse_rows_def Let_def split: option.splits)
  have 5: "2 \<le> length argv \<and> read_csv e (argv ! 1) = Inl msg \<longrightarrow> main e argv m = Exit 1"
    using invalid validate_unreadable [of e p msg] by (simp add: p_def)
  have 6: "2 \<le> length argv \<and> read_csv e (argv ! 1) = Inr df
        \<and> \<not> set required_columns \<subseteq> set (columns df)
      \<longrightarrow> main e argv m = Exit 1"
    using invalid validate_missing [of e p df] by (simp add: p_def)
  have 7: "main e argv m =
            (if list_ex (\<lambda>c. outcome c = Returned)
                  (model_calls e (argv ! 1) [start_row + 1..last_row df end_row + 1] m)
             then Exit 0 else Exit 1)"
    if a: "2 \<le> length argv \<and> path_exists e (argv ! 1)
        \<and> parse_rows e argv = Some (start_row, end_row)
        \<and> read_csv e (argv ! 1) = Inr df \<and> set required_columns \<subseteq> set (columns df)
        \<and> 1 \<le> start_row \<and> start_row \<le> last_row df end_row
        \<and> list_all (\<lambda>c. \<not> escapes (outcome c))
             (model_calls e (argv ! 1) [start_row + 1..last_row df end_row + 1] m)"
  proof -
    from a have r: "read_csv e p = Inr df" and q: "set required_columns \<subseteq> set (columns df)"
      and s: "1 \<le> start_row" and l: "start_row \<le> last_row df end_row"
      and ne: "list_all (\<lambda>c. \<not> escapes (outcome c))
             (model_calls e p [start_row + 1..last_row df end_row + 1] m)"
      by (simp_all add: p_def)
    have "ret (run_timeseries_processing e p start_row end_row m) =
        Inr (list_ex (\<lambda>c. outcome c = Returned)
          (model_calls e p [start_row + 1..last_row df end_row + 1] m))"
      by (rule run_returns [OF r q s l ne])
    with a show ?thesis
      by (simp add: main_def Let_def p_def)
  qed
  from 1 2 3 4 5 6 7 show ?thesis
    by blast
qed

text \<open>
  On the sample table: no file named, a missing file, a row argument that is no integer
  and a file without a required column give status 1; with the model raising at display
  row 4 only, status 0; with the model raising on every row, status 1.
\<close>

theorem exit_status_witness:
  "main (sample_env (\<lambda>r. Returned)) [''run_timeseries.py''] csv_only_module = Exit 1
   \<and> main (sample_env (\<lambda>r. Returned)) [''run_timeseries.py'', ''none.csv''] csv_only_module = Exit 1
   \<and> main (sample_env (\<lambda>r. Returned)) [''run_timeseries.py'', ''runs.csv'', ''two''] csv_only_module
       = Exit 1
   \<and> main (sample_env (\<lambda>r. Returned)) [''run_timeseries.py'', ''runs.csv'', ''2'', ''five'']
        csv_only_module = Exit 1
   \<and> main (sample_env (\<lambda>r. Returned)) [''run_timeseries.py'', ''bad.csv''] csv_only_module = Exit 1
   \<and> main (sample_env (\<lambda>r. if r = 4 then Raised ''boom'' else Returned))
        [''run_timeseries.py'', ''runs.csv'', ''1'', ''5''] csv_only_module = Exit 0
   \<and> main (sample_env (\<lambda>r. Raised ''boom''))
        [''run_timeseries.py'', ''runs.csv'', ''1'', ''5''] csv_only_module = Exit 1"
proof -
  let ?ok = "sample_env (\<lambda>r. Returned)"
  have 1: "main ?ok [''run_timeseries.py''] csv_only_module = Exit 1"
    using exit_status [where argv = "[''run_timeseries.py'']" and e = ?ok and m = csv_only_module]
    by simp
  have 2: "main ?ok [''run_timeseries.py'', ''none.csv''] csv_only_module = Exit 1"
    using exit_status [where argv = "[''run_timeseries.py'', ''none.csv'']" and e = ?ok
        and m = csv_only_module]
    by (simp add: sample_env_def)
  have 3: "main ?ok [''run_timeseries.py'', ''runs.csv'', ''two''] csv_only_module = Exit 1"
    using exit_status [where argv = "[''run_timeseries.py'', ''runs.csv'', ''two'']" and e = ?ok
        and m = csv_only_module]
    by (simp add: sample_env_def)
  have 4: "main ?ok [''run_timeseries.py'', ''runs.csv'', ''2'', ''five''] csv_only_module = Exit 1"
    using exit_status [where argv = "[''run_timeseries.py'', ''runs.csv'', ''2'', ''five'']"
        and e = ?ok and m = csv_only_module]
    by (simp add: sample_env_def)
  have 5: "main ?ok [''run_timeseries.py'', ''bad.csv''] csv_only_module = Exit 1"
    using exit_status [where argv = "[''run_timeseries.py'', ''bad.csv'']" and e = ?ok
        and m = csv_only_module and df = bad_frame]
    by (simp add: sample_env_def required_columns_def bad_frame_def)
  have 6: "main (sample_env (\<lambda>r. if r = 4 then Raised ''boom'' else Returned))
        [''run_timeseries.py'', ''runs.csv'', ''1'', ''5''] csv_only_module = Exit 0"
    using exit_status [where argv = "[''run_timeseries.py'', ''runs.csv'', ''1'', ''5'']"
        and e = "sample_env (\<lambda>r. if r = 4 then Raised ''boom'' else Returned)"
        and m = csv_only_module and df = sample_frame and start_row = 1 and end_row = "Some 5"]
      sample_required
    by (simp add: sample_exists sample_args sample_read sample_last_row sample_model escapes_def)
  have 7: "main (sample_env (\<lambda>r. Raised ''boom''))
        [''run_timeseries.py'', ''runs.csv'', ''1'', ''5''] csv_only_module = Exit 1"
    using exit_status [where argv = "[''run_timeseries.py'', ''runs.csv'', ''1'', ''5'']"
        and e = "sample_env (\<lambda>r. Raised ''boom'')"
        and m = csv_only_module and df = sample_frame and start_row = 1 and end_row = "Some 5"]
      sample_required
    by (simp add: sample_exists sample_args sample_read sample_last_row sample_model escapes_def)
  from 1 2 3 4 5 6 7 show ?thesis
    by blast
qed

text \<open>
  Against claim C5 as stated: the sample file exists and passes the validation, the model
  raises on every row, the batch completes (the function returns \<^verbatim>\<open>False\<close>, with five
  runs recorded), and \<^verbatim>\<open>main\<close> exits with status 1.
\<close>

theorem all_runs_failed_counterexample:
  "path_exists (sample_env (\<lambda>r. Raised ''boom'')) ''runs.csv''
   \<and> fst (validate_csv_input (read_csv (sample_env (\<lambda>r. Raised ''boom''))) ''runs.csv'')
       = Some sample_frame
   \<and> ret (run_timeseries_processing (sample_env (\<lambda>r. Raised ''boom'')) ''runs.csv'' 1 None
        csv_only_module) = Inr False
   \<and> map r_status (results (final (run_timeseries_processing (sample_env (\<lambda>r. Raised ''boom''))
        ''runs.csv'' 1 None csv_only_module))) = [Failed, Failed, Failed, Failed, Failed]
   \<and> main (sample_env (\<lambda>r. Raised ''boom'')) [''run_timeseries.py'', ''runs.csv''] csv_only_module
       = Exit 1"
proof -
  let ?e = "sample_env (\<lambda>r. Raised ''boom'')"
  have ev: "map r_status (results (final (run_timeseries_processing ?e ''runs.csv'' 1 None
        csv_only_module))) = [Failed, Failed, Failed, Failed, Failed]
      \<and> successful_runs (final (run_timeseries_processing ?e ''runs.csv'' 1 None csv_only_module)) = 0
      \<and> failed_runs (final (run_timeseries_processing ?e ''runs.csv'' 1 None csv_only_module)) = 5
      \<and> escaped (final (run_timeseries_processing ?e ''runs.csv'' 1 None csv_only_module)) = None"
    by (simp add: final_loop [OF sample_read sample_required] sample_last_row py_range_0_5
        process_row_def iloc_def sample_len Let_def sample_model record_failure_def
        initial_state_def)
  have r: "ret (run_timeseries_processing ?e ''runs.csv'' 1 None csv_only_module) = Inr False"
    by (simp add: ret_loop [OF sample_read sample_required] ev)
  have m: "main ?e [''run_timeseries.py'', ''runs.csv''] csv_only_module = Exit 1"
    by (simp add: main_def sample_exists sample_args r)
  show ?thesis
    using ev r m by (simp add: sample_exists validate_ok [OF sample_read sample_required])
qed

text \<open>
  Claim C6 says that the run of the 0-based index \<open>i\<close> calls the model with display row
  \<open>i + 2\<close>. \<^verbatim>\<open>run_timeseries_processing\<close> does so; \<^verbatim>\<open>run_timeseries_CSV\<close> hands the
  0-based index to the wrapper, which adds 1 only: for the first row of the sample table
  (index 0) the first driver calls the model with 2 and the second with 1, the row of the
  header.
\<close>

theorem display_row_off_by_one:
  "map display_row (invocations (final
      (run_timeseries_processing (sample_env (\<lambda>r. Returned)) ''runs.csv'' 1 (Some 1) csv_only_module)))
     = [2]
   \<and> map_option (\<lambda>st. map display_row (csv_invocations st))
        (run_timeseries_CSV (sample_env (\<lambda>r. Returned)) ''runs.csv'' 1 (Some 1) csv_only_module)
     = Some [1]"
proof -
  let ?e = "sample_env (\<lambda>r. Returned)"
  have s: "(1::int) \<le> 1"
    by simp
  have 1: "map display_row (invocations (final
      (run_timeseries_processing ?e ''runs.csv'' 1 (Some 1) csv_only_module))) = [2]"
    by (simp add: run_calls [OF sample_read sample_required s] sample_last_row sample_model
        escapes_def)
  have 2: "map_option (\<lambda>st. map display_row (csv_invocations st))
        (run_timeseries_CSV ?e ''runs.csv'' 1 (Some 1) csv_only_module) = Some [1]"
    using csv_run_calls [OF sample_read, of "\<lambda>r. Returned" 1 "Some 1" csv_only_module]
    by (auto simp: sample_last_row sample_model escapes_def)
  from 1 2 show ?thesis by simp
qed

section \<open>The claims about the mock workbook and the wrapper\<close>

text \<open>
  Claim C9 says that a cell read through the mock workbook takes its value from the row
  of the current run. It does not: in the workbooks the wrapper builds for the runs of
  rows 2 and 4 of the sample table, the cell B of the general sheet is the input folder
  of the first data row both times, while the table has other folders at the display
  rows 3 and 5 of these runs.
\<close>

theorem mock_cell_reads_first_row:
  "cell_access (wrapper_workbook (load_csv (read_csv (sample_env (\<lambda>r. Returned))) ''runs.csv'') 2)
      ''General_Input'' ''B3'' = Inr (Some (Str ''/data/in''))
   \<and> cell_access (wrapper_workbook (load_csv (read_csv (sample_env (\<lambda>r. Returned))) ''runs.csv'') 4)
      ''General_Input'' ''B5'' = Inr (Some (Str ''/data/in''))
   \<and> get_value (load_csv (read_csv (sample_env (\<lambda>r. Returned))) ''runs.csv'')
      ''General_Input'' ''B3'' 3 = Inr (Some (Str ''/data/in2''))
   \<and> get_value (load_csv (read_csv (sample_env (\<lambda>r. Returned))) ''runs.csv'')
      ''General_Input'' ''B5'' 5 = Inr (Some (Str ''/data/in4''))"
  by (simp add: cell_access_row_2 get_value_def sample_handler col_name_of_def
      col_mapping_general_B value_at_def sample_len)
    (simp add: sample_frame_def sample_row_def)

text \<open>
  Claim C10, as amended. If the module has an attribute \<^verbatim>\<open>load_workbook\<close> whose value is
  true in Python's sense, as every function is, then after the wrapper, whether the model
  returned or raised and whatever it did to the module, the attribute has that value
  again.
\<close>

theorem load_workbook_restored:
  assumes "load_workbook m = Some f" and "truthy f"
  shows "load_workbook (fst (snd (SEBALcode_CSV_wrapper e row_number csv_file m))) = Some f"
proof (cases "read_csv e csv_file")
  case (Inl msg)
  then show ?thesis
    using assms by (simp add: wrapper_no_data)
next
  case (Inr df)
  then show ?thesis
    using assms by (simp add: wrapper_module)
qed

theorem load_workbook_restored_witness:
  "load_workbook (fst (snd (SEBALcode_CSV_wrapper (sample_env (\<lambda>r. Raised ''boom'')) 1 ''runs.csv''
      excel_module))) = Some (PyFunction ''openpyxl.load_workbook'')
   \<and> fst (SEBALcode_CSV_wrapper (sample_env (\<lambda>r. Raised ''boom'')) 1 ''runs.csv'' excel_module)
      = WRaised ''boom''"
proof -
  have a: "load_workbook excel_module = Some (PyFunction ''openpyxl.load_workbook'')"
    by (simp add: excel_module_def)
  have t: "truthy (PyFunction ''openpyxl.load_workbook'')"
    by simp
  have r: "fst (SEBALcode_CSV_wrapper (sample_env (\<lambda>r. Raised ''boom'')) 1 ''runs.csv'' excel_module)
      = WRaised ''boom''"
    by (simp add: SEBALcode_CSV_wrapper_def sample_handler sample_model Let_def)
  show ?thesis
    using load_workbook_restored [OF a t, of "sample_env (\<lambda>r. Raised ''boom'')" 1 "''runs.csv''"] r
    by simp
qed

text \<open>
  Against claim C10 as stated: a module whose attribute \<^verbatim>\<open>load_workbook\<close> is \<^verbatim>\<open>None\<close>
  has the attribute, and after the wrapper the attribute is the mock function.
\<close>

theorem load_workbook_none_counterexample:
  "load_workbook \<lparr>load_workbook = Some PyNone, world = ()\<rparr> = Some PyNone
   \<and> load_workbook (fst (snd (SEBALcode_CSV_wrapper (sample_env (\<lambda>r. Returned)) 1 ''runs.csv''
      \<lparr>load_workbook = Some PyNone, world = ()\<rparr>)))
     = Some (mock_load_workbook
         (wrapper_workbook (load_csv (read_csv (sample_env (\<lambda>r. Returned))) ''runs.csv'') 1))
   \<and> load_workbook (fst (snd (SEBALcode_CSV_wrapper (sample_env (\<lambda>r. Returned)) 1 ''runs.csv''
      \<lparr>load_workbook = Some PyNone, world = ()\<rparr>)))
     \<noteq> Some PyNone"
  by (simp add: wrapper_module [OF sample_read] sample_model)

end
